theory Spec2Isabelle
  imports Main "HOL-Library.Word"
begin

section \<open>Invoice signing and verification (types/signature.go)\<close>

text \<open>
  A Go \<open>string\<close> is a sequence of bytes, and so is an Isabelle \<open>string\<close> (a list of
  8-bit characters). The conversion \<open>[]byte(s)\<close> of the source is therefore the identity,
  and byte slices are modelled by the same type.
\<close>

type_synonym bytes = string

subsection \<open>Data model\<close>

text \<open>
  The struct declarations live outside \<open>signature.go\<close>; the records below carry the
  fields that \<open>signature.go\<close> reads and writes, under the names it uses for them.
  \<open>Invoice.Signature\<close> is a slice that may be \<open>nil\<close>: \<open>None\<close> is the nil slice.
\<close>

record Label =
  SHA256 :: string

record Parcel =
  Label :: Label

record BindleSpec =
  Name :: string
  Version :: string
  Authors :: "string list"

record SignatureKey =
  Label :: string
  Roles :: "string list"
  Key :: string
  LabelSignature :: string

record Signature =
  By :: string
  Signature :: string
  Key :: string
  Role :: string
  At :: "64 word"

record Invoice =
  Bindle :: BindleSpec
  Parcel :: "Parcel list"
  Signature :: "Signature list option"

subsection \<open>The canonical text\<close>

text \<open>\<open>strings.Join\<close>: nothing for no element, the element itself for one, otherwise the
  elements with the separator between neighbours.\<close>

fun Join :: "string list \<Rightarrow> string \<Rightarrow> string" where
  "Join [] sep = []"
| "Join [x] sep = x"
| "Join (x # y # ys) sep = x @ sep @ Join (y # ys) sep"

definition newline :: string where
  "newline = [CHR 0x0A]"

text \<open>The loop \<open>for _, p := range i.Parcel\<close> of \<open>generateCleartext\<close>, appending one
  digest per parcel to the parts collected so far.\<close>

fun append_parcel_SHAs :: "string list \<Rightarrow> Parcel list \<Rightarrow> string list" where
  "append_parcel_SHAs cleartextParts [] = cleartextParts"
| "append_parcel_SHAs cleartextParts (p # ps) =
     append_parcel_SHAs (cleartextParts @ [SHA256 (Parcel.Label p)]) ps"

definition generateCleartext :: "Invoice \<Rightarrow> string \<Rightarrow> string \<Rightarrow> string" where
  "generateCleartext i author role =
     (let cleartextParts = [author, Name (Bindle i), Version (Bindle i), role, ''~''];
          cleartextParts = append_parcel_SHAs cleartextParts (Parcel i)
      in Join cleartextParts newline)"

text \<open>The invoice of the format comment at the head of \<open>signature.go\<close>.\<close>

definition example_invoice :: Invoice where
  "example_invoice =
     \<lparr>Bindle = \<lparr>Name = ''mybindle'', Version = ''0.1.0'',
                 Authors = [''Matt Butcher <matt.butcher@example.com>'']\<rparr>,
      Parcel = [\<lparr>Parcel.Label = \<lparr>SHA256 = ''e1706ab0a39ac88094b6d54a3f5cdba41fe5a901''\<rparr>\<rparr>,
                \<lparr>Parcel.Label = \<lparr>SHA256 = ''098fa798779ac88094b6d54a3f5cdba41fe5a901''\<rparr>\<rparr>,
                \<lparr>Parcel.Label = \<lparr>SHA256 = ''5b992e90b71d5fadab3cd3777230ef370df75f5b''\<rparr>\<rparr>],
      Signature = None\<rparr>"

subsection \<open>Errors, panics and the libraries the code calls\<close>

text \<open>
  The six error values of \<open>signature.go\<close>, and \<open>base64.CorruptInputError\<close>, which the
  code hands on as it gets it (the offset it carries is left out). A call ends by
  returning \<open>nil\<close> (\<open>None\<close>), by returning an error, or by a panic, which is no return
  at all.
\<close>

datatype error =
    ErrInvalidRole
  | ErrAuthorNotExist
  | ErrSignatureKeyRoleMismatch
  | ErrInvalidSignatureKey
  | ErrInvalidSignature
  | ErrMissingSignatureKey
  | CorruptInputError

datatype panic =
    BadPrivateKeyLength nat
  | BadPublicKeyLength nat

datatype abort =
    Returned error
  | Panicked panic

text \<open>
  \<open>crypto/ed25519\<close> and \<open>encoding/base64\<close> are not part of the repository. Their
  functions are parameters of the model: \<open>Sign\<close> and \<open>Verify\<close> are Ed25519 on keys of
  the right length, \<open>DecodeString\<close> and \<open>EncodeToString\<close> are those of
  \<open>base64.StdEncoding\<close> (\<open>None\<close> where the input is corrupt).
\<close>

record libs =
  Sign :: "bytes \<Rightarrow> bytes \<Rightarrow> bytes"
  Verify :: "bytes \<Rightarrow> bytes \<Rightarrow> bytes \<Rightarrow> bool"
  DecodeString :: "string \<Rightarrow> bytes option"
  EncodeToString :: "bytes \<Rightarrow> string"

text \<open>\<open>ed25519.Sign\<close> panics unless the private key has \<open>PrivateKeySize = 64\<close> bytes,
  and \<open>ed25519.Verify\<close> panics unless the public key has \<open>PublicKeySize = 32\<close> bytes
  (their documentation in the Go standard library).\<close>

definition ed25519_Sign :: "libs \<Rightarrow> bytes \<Rightarrow> bytes \<Rightarrow> abort + bytes" where
  "ed25519_Sign L privateKey message =
     (if length privateKey \<noteq> 64 then Inl (Panicked (BadPrivateKeyLength (length privateKey)))
      else Inr (Sign L privateKey message))"

definition ed25519_Verify :: "libs \<Rightarrow> bytes \<Rightarrow> bytes \<Rightarrow> bytes \<Rightarrow> abort + bool" where
  "ed25519_Verify L publicKey message sig =
     (if length publicKey \<noteq> 32 then Inl (Panicked (BadPublicKeyLength (length publicKey)))
      else Inr (Verify L publicKey message sig))"

definition base64_DecodeString :: "libs \<Rightarrow> string \<Rightarrow> abort + bytes" where
  "base64_DecodeString L s =
     (case DecodeString L s of
        None \<Rightarrow> Inl (Returned CorruptInputError)
      | Some b \<Rightarrow> Inr b)"

subsection \<open>Roles and authors\<close>

definition RoleCreator :: string where "RoleCreator = ''creator''"
definition RoleApprover :: string where "RoleApprover = ''approver''"
definition RoleProxy :: string where "RoleProxy = ''proxy''"
definition RoleHost :: string where "RoleHost = ''host''"

definition ValidRoles :: "string \<rightharpoonup> bool" where
  "ValidRoles = [RoleCreator \<mapsto> True, RoleApprover \<mapsto> True, RoleProxy \<mapsto> True, RoleHost \<mapsto> True]"

text \<open>\<open>ValidRoles\<close> is a package variable; it is read at the value it is declared with.
  Go's two-result map index \<open>v, ok := m[k]\<close>: the zero value and \<open>false\<close> for a
  key that is absent.\<close>

definition index2 :: "(string \<rightharpoonup> bool) \<Rightarrow> string \<Rightarrow> bool \<times> bool" where
  "index2 m k = (case m k of None \<Rightarrow> (False, False) | Some v \<Rightarrow> (v, True))"

text \<open>Modelled from the spec: \<open>SignatureKey.IncludesRole\<close>, declared outside
  \<open>signature.go\<close>. The spec gives it as the capability check of the key,
  \<open>role \<in> sigKey.Roles\<close>.\<close>

definition IncludesRole :: "SignatureKey \<Rightarrow> string \<Rightarrow> bool" where
  "IncludesRole sigKey role = (role \<in> set (Roles sigKey))"

fun authors_loop :: "string list \<Rightarrow> string \<Rightarrow> bool" where
  "authors_loop [] author = False"
| "authors_loop (a # as) author = (if a = author then True else authors_loop as author)"

definition IsAuthoredBy :: "Invoice \<Rightarrow> string \<Rightarrow> bool" where
  "IsAuthoredBy i author = authors_loop (Authors (Bindle i)) author"

subsection \<open>GenerateSignature\<close>

text \<open>The elements of a slice that may be \<open>nil\<close>: ranging over it and appending to it
  treat \<open>nil\<close> as the empty slice.\<close>

fun elems :: "'a list option \<Rightarrow> 'a list" where
  "elems None = []"
| "elems (Some xs) = xs"

text \<open>
  The method mutates the invoice behind its pointer receiver; the model takes the invoice
  and returns it with the outcome. \<open>now\<close> is what \<open>time.Now().Unix()\<close> reads. The
  receiver and \<open>sigKey\<close> are taken to be non-nil pointers.
\<close>

definition GenerateSignature ::
  "libs \<Rightarrow> 64 word \<Rightarrow> string \<Rightarrow> string \<Rightarrow> SignatureKey \<Rightarrow> bytes \<Rightarrow> Invoice \<Rightarrow> abort option \<times> Invoice" where
  "GenerateSignature L now author role sigKey privKey i =
     (let (exists, val) = index2 ValidRoles role in
      if \<not> exists \<or> \<not> val then (Some (Returned ErrInvalidRole), i)
      else if \<not> IncludesRole sigKey role then (Some (Returned ErrSignatureKeyRoleMismatch), i)
      else if \<not> IsAuthoredBy i author then (Some (Returned ErrAuthorNotExist), i)
      else
        let timestamp = now;
            cleartext = generateCleartext i author role
        in (case ed25519_Sign L privKey cleartext of
              Inl a \<Rightarrow> (Some a, i)
            | Inr sig \<Rightarrow>
                (case base64_DecodeString L (SignatureKey.Key sigKey) of
                   Inl a \<Rightarrow> (Some a, i)
                 | Inr pubKey \<Rightarrow>
                     (let signature = \<lparr>By = author,
                                       Signature = EncodeToString L sig,
                                       Key = EncodeToString L pubKey,
                                       Role = role,
                                       At = timestamp\<rparr>;
                          i = (case Invoice.Signature i of
                                 None \<Rightarrow> i\<lparr>Signature := Some []\<rparr>
                               | Some _ \<Rightarrow> i);
                          i = i\<lparr>Signature := Some (elems (Invoice.Signature i) @ [signature])\<rparr>
                      in (None, i)))))"

subsection \<open>VerifySignatures\<close>

text \<open>
  \<open>keys\<close> is the \<open>map[string]*SignatureKey\<close> of the source. Each iteration of the
  first loop declares its own \<open>key\<close>, a copy of \<open>sigKeys[i]\<close>, so every pointer stored
  is non-nil and points to a value of its own: the map holds the key values.
\<close>

type_synonym keymap = "string \<rightharpoonup> SignatureKey"

fun index_keys :: "libs \<Rightarrow> keymap \<Rightarrow> SignatureKey list \<Rightarrow> abort + keymap" where
  "index_keys L keys [] = Inr keys"
| "index_keys L keys (key # rest) =
     (case base64_DecodeString L (SignatureKey.Key key) of
        Inl a \<Rightarrow> Inl a
      | Inr keyBytes \<Rightarrow>
          (case base64_DecodeString L (LabelSignature key) of
             Inl a \<Rightarrow> Inl a
           | Inr labelSigBytes \<Rightarrow>
               (case ed25519_Verify L keyBytes (SignatureKey.Label key) labelSigBytes of
                  Inl a \<Rightarrow> Inl a
                | Inr valid \<Rightarrow>
                    if \<not> valid then Inl (Returned ErrInvalidSignatureKey)
                    else index_keys L (keys(SignatureKey.Label key \<mapsto> key)) rest)))"

fun check_signatures ::
  "libs \<Rightarrow> keymap \<Rightarrow> Signature list \<Rightarrow> Invoice \<Rightarrow> abort option \<times> Invoice" where
  "check_signatures L keys [] i = (None, i)"
| "check_signatures L keys (s # rest) i =
     (case keys (By s) of
        None \<Rightarrow> (Some (Returned ErrMissingSignatureKey), i)
      | Some key \<Rightarrow>
          if \<not> IncludesRole key (Role s) then (Some (Returned ErrSignatureKeyRoleMismatch), i)
          else
            (case base64_DecodeString L (SignatureKey.Key key) of
               Inl a \<Rightarrow> (Some a, i)
             | Inr keyBytes \<Rightarrow>
                 (case base64_DecodeString L (Signature.Signature s) of
                    Inl a \<Rightarrow> (Some a, i)
                  | Inr sigBytes \<Rightarrow>
                      (let cleartext = generateCleartext i (SignatureKey.Label key) (Role s)
                       in (case ed25519_Verify L keyBytes cleartext sigBytes of
                             Inl a \<Rightarrow> (Some a, i)
                           | Inr valid \<Rightarrow>
                               if \<not> valid then (Some (Returned ErrInvalidSignature), i)
                               else check_signatures L keys rest i)))))"

definition VerifySignatures ::
  "libs \<Rightarrow> SignatureKey list \<Rightarrow> Invoice \<Rightarrow> abort option \<times> Invoice" where
  "VerifySignatures L sigKeys i =
     (case index_keys L Map.empty sigKeys of
        Inl a \<Rightarrow> (Some a, i)
      | Inr keys \<Rightarrow> check_signatures L keys (elems (Invoice.Signature i)) i)"

section \<open>Notions used to state what verification accepts\<close>

text \<open>A key self-certifies when its \<open>Key\<close> and \<open>LabelSignature\<close> decode, the key has
  32 bytes, and the label signature verifies under the key over the raw \<open>Label\<close>.\<close>

definition self_certifies :: "libs \<Rightarrow> SignatureKey \<Rightarrow> bool" where
  "self_certifies L k =
     (case DecodeString L (SignatureKey.Key k) of
        None \<Rightarrow> False
      | Some keyBytes \<Rightarrow>
          (case DecodeString L (LabelSignature k) of
             None \<Rightarrow> False
           | Some labelSigBytes \<Rightarrow>
               length keyBytes = 32 \<and> Verify L keyBytes (SignatureKey.Label k) labelSigBytes))"

text \<open>The last key of a list that carries a given label.\<close>

definition last_labelled :: "string \<Rightarrow> SignatureKey list \<Rightarrow> SignatureKey option" where
  "last_labelled l ks = find (\<lambda>k. SignatureKey.Label k = l) (rev ks)"

text \<open>A signature record verifies against a key when the key's label is the record's
  \<open>By\<close>, the key's roles include the record's \<open>Role\<close>, key and signature decode, and
  the signature verifies under the key over the canonical text of \<open>By\<close> and \<open>Role\<close>. A
  record verifies under a list of keys when it verifies against the last key labelled
  with its \<open>By\<close>.\<close>

definition record_verifies :: "libs \<Rightarrow> Invoice \<Rightarrow> SignatureKey \<Rightarrow> Signature \<Rightarrow> bool" where
  "record_verifies L i k s =
     (SignatureKey.Label k = By s \<and> Role s \<in> set (Roles k) \<and>
      (case DecodeString L (SignatureKey.Key k) of
         None \<Rightarrow> False
       | Some keyBytes \<Rightarrow>
           (case DecodeString L (Signature.Signature s) of
              None \<Rightarrow> False
            | Some sigBytes \<Rightarrow>
                length keyBytes = 32 \<and>
                Verify L keyBytes (generateCleartext i (By s) (Role s)) sigBytes)))"

definition verifies_under :: "libs \<Rightarrow> Invoice \<Rightarrow> SignatureKey list \<Rightarrow> Signature \<Rightarrow> bool" where
  "verifies_under L i sigKeys s =
     (case last_labelled (By s) sigKeys of
        None \<Rightarrow> False
      | Some k \<Rightarrow> record_verifies L i k s)"

text \<open>The checks of one iteration of the second loop once a key is found.\<close>

definition key_accepts :: "libs \<Rightarrow> Invoice \<Rightarrow> SignatureKey \<Rightarrow> Signature \<Rightarrow> bool" where
  "key_accepts L i key s =
     (IncludesRole key (Role s) \<and>
      (case DecodeString L (SignatureKey.Key key) of
         None \<Rightarrow> False
       | Some keyBytes \<Rightarrow>
           (case DecodeString L (Signature.Signature s) of
              None \<Rightarrow> False
            | Some sigBytes \<Rightarrow>
                length keyBytes = 32 \<and>
                Verify L keyBytes (generateCleartext i (SignatureKey.Label key) (Role s)) sigBytes)))"

text \<open>The second loop as the spec's open question words it, with the record's \<open>By\<close> in
  place of the matched key's \<open>Label\<close> when the canonical text is rebuilt; to be compared
  with \<open>check_signatures\<close>.\<close>

fun check_signatures_By ::
  "libs \<Rightarrow> keymap \<Rightarrow> Signature list \<Rightarrow> Invoice \<Rightarrow> abort option \<times> Invoice" where
  "check_signatures_By L keys [] i = (None, i)"
| "check_signatures_By L keys (s # rest) i =
     (case keys (By s) of
        None \<Rightarrow> (Some (Returned ErrMissingSignatureKey), i)
      | Some key \<Rightarrow>
          if \<not> IncludesRole key (Role s) then (Some (Returned ErrSignatureKeyRoleMismatch), i)
          else
            (case base64_DecodeString L (SignatureKey.Key key) of
               Inl a \<Rightarrow> (Some a, i)
             | Inr keyBytes \<Rightarrow>
                 (case base64_DecodeString L (Signature.Signature s) of
                    Inl a \<Rightarrow> (Some a, i)
                  | Inr sigBytes \<Rightarrow>
                      (let cleartext = generateCleartext i (By s) (Role s)
                       in (case ed25519_Verify L keyBytes cleartext sigBytes of
                             Inl a \<Rightarrow> (Some a, i)
                           | Inr valid \<Rightarrow>
                               if \<not> valid then (Some (Returned ErrInvalidSignature), i)
                               else check_signatures_By L keys rest i)))))"

definition VerifySignatures_By ::
  "libs \<Rightarrow> SignatureKey list \<Rightarrow> Invoice \<Rightarrow> abort option \<times> Invoice" where
  "VerifySignatures_By L sigKeys i =
     (case index_keys L Map.empty sigKeys of
        Inl a \<Rightarrow> (Some a, i)
      | Inr keys \<Rightarrow> check_signatures_By L keys (elems (Invoice.Signature i)) i)"

section \<open>A concrete instance of the libraries\<close>

text \<open>
  The theorems below hold for every \<open>libs\<close>. To run the model on concrete inputs the
  parameters are instantiated: base64 by the standard encoding with padding (RFC 4648,
  as \<open>base64.StdEncoding\<close> reads and writes it), and the signature scheme by a stand-in
  with the key sizes of Ed25519, in which a private key is a 32-byte seed followed by
  the 32-byte public key, and the signature of a message is the public key followed by
  the message. The stand-in is correct (a signature verifies under the public key of the
  private key that made it) and is not meant to be secure.
\<close>

text \<open>The alphabet \<open>A\<close>-\<open>Z\<close>, \<open>a\<close>-\<open>z\<close>, \<open>0\<close>-\<open>9\<close>, \<open>+\<close>, \<open>/\<close>: the character of a
  six-bit value, and the six-bit value of a character (none for a character outside the
  alphabet).\<close>

definition encodeStd :: "nat \<Rightarrow> char" where
  "encodeStd n =
     (if n < 26 then char_of (n + 65)
      else if n < 52 then char_of (n + 71)
      else if n < 62 then char_of (n - 4)
      else if n = 62 then CHR ''+'' else CHR ''/'')"

definition decodeMap :: "char \<Rightarrow> nat option" where
  "decodeMap c =
     (let n = of_char c :: nat in
      if 65 \<le> n \<and> n \<le> 90 then Some (n - 65)
      else if 97 \<le> n \<and> n \<le> 122 then Some (n - 71)
      else if 48 \<le> n \<and> n \<le> 57 then Some (n + 4)
      else if n = 43 then Some 62
      else if n = 47 then Some 63
      else None)"

fun encode_groups :: "nat list \<Rightarrow> string" where
  "encode_groups (a # b # c # rest) =
     [encodeStd (a div 4), encodeStd ((a mod 4) * 16 + b div 16),
      encodeStd ((b mod 16) * 4 + c div 64), encodeStd (c mod 64)] @ encode_groups rest"
| "encode_groups [a, b] =
     [encodeStd (a div 4), encodeStd ((a mod 4) * 16 + b div 16),
      encodeStd ((b mod 16) * 4), CHR ''='']"
| "encode_groups [a] =
     [encodeStd (a div 4), encodeStd ((a mod 4) * 16), CHR ''='', CHR ''='']"
| "encode_groups [] = []"

definition StdEncoding_EncodeToString :: "bytes \<Rightarrow> string" where
  "StdEncoding_EncodeToString src = encode_groups (map of_char src)"

text \<open>The decoder skips carriage returns and line feeds, reads groups of four characters
  of the alphabet, accepts \<open>==\<close> or \<open>=\<close> as the padding of the last group only, and
  does not ask the unused bits of a padded group to be zero.\<close>

fun decode_groups :: "string \<Rightarrow> bytes option" where
  "decode_groups [] = Some []"
| "decode_groups (a # b # c # d # rest) =
     (case (decodeMap a, decodeMap b) of
        (Some x, Some y) \<Rightarrow>
          if c = CHR ''='' then
            (if d = CHR ''='' \<and> rest = [] then Some [char_of (x * 4 + y div 16)] else None)
          else
            (case decodeMap c of
               None \<Rightarrow> None
             | Some z \<Rightarrow>
                 if d = CHR ''='' then
                   (if rest = []
                    then Some [char_of (x * 4 + y div 16), char_of ((y mod 16) * 16 + z div 4)]
                    else None)
                 else
                   (case decodeMap d of
                      None \<Rightarrow> None
                    | Some w \<Rightarrow>
                        (case decode_groups rest of
                           None \<Rightarrow> None
                         | Some out \<Rightarrow>
                             Some (char_of (x * 4 + y div 16) #
                                   char_of ((y mod 16) * 16 + z div 4) #
                                   char_of ((z mod 4) * 64 + w) # out))))
      | _ \<Rightarrow> None)"
| "decode_groups _ = None"

definition StdEncoding_DecodeString :: "string \<Rightarrow> bytes option" where
  "StdEncoding_DecodeString s =
     decode_groups (filter (\<lambda>c. c \<noteq> CHR 0x0A \<and> c \<noteq> CHR 0x0D) s)"

definition demo_Sign :: "bytes \<Rightarrow> bytes \<Rightarrow> bytes" where
  "demo_Sign privateKey message = drop 32 privateKey @ message"

definition demo_Verify :: "bytes \<Rightarrow> bytes \<Rightarrow> bytes \<Rightarrow> bool" where
  "demo_Verify publicKey message sig = (sig = publicKey @ message)"

definition demo_libs :: libs where
  "demo_libs = \<lparr>Sign = demo_Sign, Verify = demo_Verify,
                 DecodeString = StdEncoding_DecodeString,
                 EncodeToString = StdEncoding_EncodeToString\<rparr>"

subsection \<open>Sample keys, records and invoices\<close>

text \<open>A key pair of the stand-in scheme, the signature key of the example's author with
  its self-certificate, and the record that signing the example invoice as creator
  appends.\<close>

definition demo_publicKey :: bytes where
  "demo_publicKey = ''abcdefghijklmnopqrstuvwxyz012345''"

definition demo_privateKey :: bytes where
  "demo_privateKey = ''0123456789abcdef0123456789abcdef'' @ demo_publicKey"

definition demo_author :: string where
  "demo_author = ''Matt Butcher <matt.butcher@example.com>''"

definition demo_key :: SignatureKey where
  "demo_key =
     \<lparr>Label = demo_author,
      Roles = [''creator'', ''approver''],
      Key = ''YWJjZGVmZ2hpamtsbW5vcHFyc3R1dnd4eXowMTIzNDU='',
      LabelSignature = ''YWJjZGVmZ2hpamtsbW5vcHFyc3R1dnd4eXowMTIzNDVNYXR0IEJ1dGNoZXIgPG1hdHQuYnV0Y2hlckBleGFtcGxlLmNvbT4=''\<rparr>"

definition demo_record :: Signature where
  "demo_record =
     \<lparr>By = demo_author,
      Signature = ''YWJjZGVmZ2hpamtsbW5vcHFyc3R1dnd4eXowMTIzNDVNYXR0IEJ1dGNoZXIgPG1hdHQuYnV0Y2hlckBleGFtcGxlLmNvbT4KbXliaW5kbGUKMC4xLjAKY3JlYXRvcgp+CmUxNzA2YWIwYTM5YWM4ODA5NGI2ZDU0YTNmNWNkYmE0MWZlNWE5MDEKMDk4ZmE3OTg3NzlhYzg4MDk0YjZkNTRhM2Y1Y2RiYTQxZmU1YTkwMQo1Yjk5MmU5MGI3MWQ1ZmFkYWIzY2QzNzc3MjMwZWYzNzBkZjc1ZjVi'',
      Key = ''YWJjZGVmZ2hpamtsbW5vcHFyc3R1dnd4eXowMTIzNDU='',
      Role = ''creator'',
      At = 1600000000\<rparr>"

definition demo_signed :: Invoice where
  "demo_signed = example_invoice\<lparr>Signature := Some [demo_record]\<rparr>"

text \<open>Variants of the key: a \<open>Key\<close> that is not base64, a \<open>Key\<close> of three bytes, a
  key for the host role only, a label signature that is well-formed base64 and not a
  signature of the label, and a key whose label is not an author. An invoice that already
  carries a signature by someone else, the signed invoice with its parcels reordered, and
  a parcel with a given digest.\<close>

definition demo_key_malformed :: SignatureKey where
  "demo_key_malformed = demo_key\<lparr>SignatureKey.Key := ''not base64!''\<rparr>"

definition demo_key_short :: SignatureKey where
  "demo_key_short = demo_key\<lparr>SignatureKey.Key := ''QUJD''\<rparr>"

definition demo_key_host :: SignatureKey where
  "demo_key_host = demo_key\<lparr>Roles := [''host'']\<rparr>"

definition demo_key_forged :: SignatureKey where
  "demo_key_forged = demo_key\<lparr>LabelSignature := ''bm90IHRoZSBzaWduYXR1cmUgb2YgdGhlIGxhYmVs''\<rparr>"

definition demo_key_release :: SignatureKey where
  "demo_key_release =
     \<lparr>Label = ''release key'',
      Roles = [''creator'', ''approver''],
      Key = ''YWJjZGVmZ2hpamtsbW5vcHFyc3R1dnd4eXowMTIzNDU='',
      LabelSignature = ''YWJjZGVmZ2hpamtsbW5vcHFyc3R1dnd4eXowMTIzNDVyZWxlYXNlIGtleQ==''\<rparr>"

definition demo_countersigned :: Invoice where
  "demo_countersigned =
     example_invoice\<lparr>Signature :=
       Some [\<lparr>By = ''Radu Matei <radu@example.com>'', Signature = '''', Key = '''',
              Role = ''approver'', At = 1500000000\<rparr>]\<rparr>"

definition demo_tampered :: Invoice where
  "demo_tampered = demo_signed\<lparr>Parcel := rev (Parcel demo_signed)\<rparr>"

definition parcel :: "string \<Rightarrow> Parcel" where
  "parcel h = \<lparr>Parcel.Label = \<lparr>SHA256 = h\<rparr>\<rparr>"

section \<open>Lemmas\<close>

subsection \<open>The canonical text\<close>
lemma append_parcel_SHAs_eq:
  "append_parcel_SHAs parts ps = parts @ map (\<lambda>p. SHA256 (Parcel.Label p)) ps"
  by (induction ps arbitrary: parts) simp_all

lemma Join_snoc:
  "xs \<noteq> [] \<Longrightarrow> Join (xs @ [y]) sep = Join xs sep @ sep @ y"
  by (induction xs sep rule: Join.induct) simp_all

lemma Join_append_tails:
  "xs \<noteq> [] \<Longrightarrow> Join (xs @ ys) sep = Join xs sep @ concat (map (\<lambda>y. sep @ y) ys)"
proof (induction ys rule: rev_induct)
  case Nil
  then show ?case by simp
next
  case (snoc y ys)
  have "Join (xs @ ys @ [y]) sep = Join ((xs @ ys) @ [y]) sep"
    by simp
  also have "\<dots> = Join (xs @ ys) sep @ sep @ y"
    using snoc.prems by (intro Join_snoc) simp
  finally show ?case
    using snoc by simp
qed

lemma generateCleartext_eq:
  "generateCleartext i author role =
     author @ newline @ Name (Bindle i) @ newline @ Version (Bindle i) @ newline @
     role @ newline @ ''~'' @
     concat (map (\<lambda>p. newline @ SHA256 (Parcel.Label p)) (Parcel i))"
proof -
  have "generateCleartext i author role =
          Join ([author, Name (Bindle i), Version (Bindle i), role, ''~''] @
                map (\<lambda>p. SHA256 (Parcel.Label p)) (Parcel i)) newline"
    by (simp add: generateCleartext_def append_parcel_SHAs_eq)
  also have "\<dots> = Join [author, Name (Bindle i), Version (Bindle i), role, ''~''] newline @
                   concat (map (\<lambda>y. newline @ y) (map (\<lambda>p. SHA256 (Parcel.Label p)) (Parcel i)))"
    by (intro Join_append_tails) simp
  finally show ?thesis
    by (simp add: comp_def)
qed

lemma takeWhile_lines:
  "takeWhile (\<lambda>d. d \<noteq> c) (concat (map (\<lambda>h. c # h) xs)) = []"
  by (cases xs) simp_all

lemma takeWhile_line:
  assumes "c \<notin> set x"
  shows "takeWhile (\<lambda>d. d \<noteq> c) (x @ concat (map (\<lambda>h. c # h) xs)) = x"
proof -
  have "takeWhile (\<lambda>d. d \<noteq> c) (x @ concat (map (\<lambda>h. c # h) xs)) =
        x @ takeWhile (\<lambda>d. d \<noteq> c) (concat (map (\<lambda>h. c # h) xs))"
    using assms by (intro takeWhile_append2) auto
  then show ?thesis
    by (simp only: takeWhile_lines append_Nil2)
qed

lemma lines_inject:
  assumes "\<forall>h\<in>set xs. c \<notin> set h" and "\<forall>h\<in>set ys. c \<notin> set h"
    and "concat (map (\<lambda>h. c # h) xs) = concat (map (\<lambda>h. c # h) ys)"
  shows "xs = ys"
  using assms
proof (induction xs arbitrary: ys)
  case Nil
  then show ?case by (cases ys) simp_all
next
  case (Cons x xs)
  then obtain y ys' where ys: "ys = y # ys'"
    by (cases ys) simp_all
  let ?X = "concat (map (\<lambda>h. c # h) xs)" and ?Y = "concat (map (\<lambda>h. c # h) ys')"
  from Cons.prems(3) ys have eq: "x @ ?X = y @ ?Y"
    by simp
  have "takeWhile (\<lambda>d. d \<noteq> c) (x @ ?X) = x"
    using Cons.prems(1) by (intro takeWhile_line) simp
  moreover have "takeWhile (\<lambda>d. d \<noteq> c) (y @ ?Y) = y"
    using Cons.prems(2) ys by (intro takeWhile_line) simp
  ultimately have xy: "x = y"
    using eq by simp
  with eq have "?X = ?Y"
    by simp
  moreover have "\<forall>h\<in>set xs. c \<notin> set h" and "\<forall>h\<in>set ys'. c \<notin> set h"
    using Cons.prems(1,2) ys by simp_all
  ultimately have "xs = ys'"
    by (intro Cons.IH)
  with xy ys show ?case by simp
qed

lemma generateCleartext_Parcel:
  "generateCleartext (i\<lparr>Parcel := ps\<rparr>) author role =
     (author @ newline @ Name (Bindle i) @ newline @ Version (Bindle i) @ newline @
      role @ newline @ ''~'') @
     concat (map (\<lambda>h. CHR 0x0A # h) (map (\<lambda>p. SHA256 (Parcel.Label p)) ps))"
  by (simp add: generateCleartext_eq newline_def comp_def)

lemma generateCleartext_Signature_update:
  "generateCleartext (i\<lparr>Signature := sigs\<rparr>) author role = generateCleartext i author role"
  by (simp add: generateCleartext_def)

subsection \<open>GenerateSignature\<close>

lemma authors_loop_iff: "authors_loop as author \<longleftrightarrow> author \<in> set as"
  by (induction as) auto

lemma IsAuthoredBy_iff: "IsAuthoredBy i author \<longleftrightarrow> author \<in> set (Authors (Bindle i))"
  by (simp add: IsAuthoredBy_def authors_loop_iff)

lemma role_check_iff:
  "(case index2 ValidRoles role of (exists, val) \<Rightarrow> \<not> exists \<or> \<not> val) \<longleftrightarrow>
   role \<notin> {''creator'', ''approver'', ''proxy'', ''host''}"
  by (simp add: index2_def ValidRoles_def RoleCreator_def RoleApprover_def RoleProxy_def
      RoleHost_def)

lemma GenerateSignature_invalid_role:
  "role \<notin> {''creator'', ''approver'', ''proxy'', ''host''} \<Longrightarrow>
   GenerateSignature L now author role sigKey privKey i = (Some (Returned ErrInvalidRole), i)"
  using role_check_iff [of role] by (auto simp: GenerateSignature_def)

lemma GenerateSignature_role_mismatch:
  "role \<in> {''creator'', ''approver'', ''proxy'', ''host''} \<Longrightarrow> \<not> IncludesRole sigKey role \<Longrightarrow>
   GenerateSignature L now author role sigKey privKey i =
     (Some (Returned ErrSignatureKeyRoleMismatch), i)"
  using role_check_iff [of role] by (auto simp: GenerateSignature_def)

lemma GenerateSignature_no_author:
  "role \<in> {''creator'', ''approver'', ''proxy'', ''host''} \<Longrightarrow> IncludesRole sigKey role \<Longrightarrow>
   author \<notin> set (Authors (Bindle i)) \<Longrightarrow>
   GenerateSignature L now author role sigKey privKey i = (Some (Returned ErrAuthorNotExist), i)"
  using role_check_iff [of role] by (auto simp: GenerateSignature_def IsAuthoredBy_iff)

lemma GenerateSignature_signs:
  "role \<in> {''creator'', ''approver'', ''proxy'', ''host''} \<Longrightarrow> IncludesRole sigKey role \<Longrightarrow>
   author \<in> set (Authors (Bindle i)) \<Longrightarrow>
   GenerateSignature L now author role sigKey privKey i =
     (case ed25519_Sign L privKey (generateCleartext i author role) of
        Inl a \<Rightarrow> (Some a, i)
      | Inr sig \<Rightarrow>
          (case base64_DecodeString L (SignatureKey.Key sigKey) of
             Inl a \<Rightarrow> (Some a, i)
           | Inr pubKey \<Rightarrow>
               (None, i\<lparr>Signature := Some (elems (Invoice.Signature i) @
                  [\<lparr>By = author, Signature = EncodeToString L sig,
                    Key = EncodeToString L pubKey, Role = role, At = now\<rparr>])\<rparr>)))"
  using role_check_iff [of role]
  by (auto simp: GenerateSignature_def IsAuthoredBy_iff Let_def split: sum.splits option.splits)

lemma GenerateSignature_None_iff:
  "fst (GenerateSignature L now author role sigKey privKey i) = None \<longleftrightarrow>
     role \<in> {''creator'', ''approver'', ''proxy'', ''host''} \<and> IncludesRole sigKey role \<and>
     author \<in> set (Authors (Bindle i)) \<and> length privKey = 64 \<and>
     DecodeString L (SignatureKey.Key sigKey) \<noteq> None"
proof (cases "role \<in> {''creator'', ''approver'', ''proxy'', ''host''} \<and> IncludesRole sigKey role \<and>
     author \<in> set (Authors (Bindle i))")
  case True
  then show ?thesis
    by (simp only: GenerateSignature_signs)
       (auto simp: ed25519_Sign_def base64_DecodeString_def split: option.splits)
next
  case False
  then show ?thesis
    using GenerateSignature_invalid_role [of role L now author sigKey privKey i]
      GenerateSignature_role_mismatch [of role sigKey L now author privKey i]
      GenerateSignature_no_author [of role sigKey author i L now privKey]
    by fastforce
qed

lemma GenerateSignature_failure_frame:
  "fst (GenerateSignature L now author role sigKey privKey i) \<noteq> None \<Longrightarrow>
   snd (GenerateSignature L now author role sigKey privKey i) = i"
  by (auto simp: GenerateSignature_def Let_def split: prod.splits sum.splits if_splits)

lemma GenerateSignature_success:
  assumes "fst (GenerateSignature L now author role sigKey privKey i) = None"
  shows "\<exists>pubKey. DecodeString L (SignatureKey.Key sigKey) = Some pubKey \<and>
           snd (GenerateSignature L now author role sigKey privKey i) =
             i\<lparr>Signature := Some (elems (Invoice.Signature i) @
                  [\<lparr>By = author,
                    Signature = EncodeToString L (Sign L privKey (generateCleartext i author role)),
                    Key = EncodeToString L pubKey, Role = role, At = now\<rparr>])\<rparr>"
proof -
  from assms have pre: "role \<in> {''creator'', ''approver'', ''proxy'', ''host''}"
      "IncludesRole sigKey role" "author \<in> set (Authors (Bindle i))" "length privKey = 64"
    and "DecodeString L (SignatureKey.Key sigKey) \<noteq> None"
    by (simp_all add: GenerateSignature_None_iff)
  then obtain pubKey where "DecodeString L (SignatureKey.Key sigKey) = Some pubKey"
    by blast
  with pre show ?thesis
    by (simp add: GenerateSignature_signs ed25519_Sign_def base64_DecodeString_def)
qed

subsection \<open>The key index of VerifySignatures\<close>

lemma index_keys_step:
  "index_keys L keys (key # rest) =
     (if self_certifies L key then index_keys L (keys(SignatureKey.Label key \<mapsto> key)) rest
      else Inl (case DecodeString L (SignatureKey.Key key) of
                  None \<Rightarrow> Returned CorruptInputError
                | Some keyBytes \<Rightarrow>
                    (case DecodeString L (LabelSignature key) of
                       None \<Rightarrow> Returned CorruptInputError
                     | Some labelSigBytes \<Rightarrow>
                         if length keyBytes \<noteq> 32 then Panicked (BadPublicKeyLength (length keyBytes))
                         else Returned ErrInvalidSignatureKey)))"
  by (simp add: self_certifies_def base64_DecodeString_def ed25519_Verify_def
      split: option.splits)

lemma index_keys_append:
  "index_keys L keys (xs @ ys) =
     (case index_keys L keys xs of Inl a \<Rightarrow> Inl a | Inr keys' \<Rightarrow> index_keys L keys' ys)"
proof (induction xs arbitrary: keys)
  case Nil
  show ?case by simp
next
  case (Cons k xs)
  show ?case
  proof (cases "self_certifies L k")
    case True
    then show ?thesis
      by (simp only: append_Cons index_keys_step if_True Cons.IH)
  next
    case False
    then show ?thesis
      by (simp only: append_Cons index_keys_step if_False sum.case)
  qed
qed

lemma last_labelled_Nil: "last_labelled l [] = None"
  by (simp add: last_labelled_def)

lemma last_labelled_snoc:
  "last_labelled l (ks @ [k]) = (if SignatureKey.Label k = l then Some k else last_labelled l ks)"
  by (simp add: last_labelled_def)

lemma last_labelled_Cons:
  "last_labelled l (k # ks) =
     (case last_labelled l ks of
        None \<Rightarrow> if SignatureKey.Label k = l then Some k else None
      | Some k' \<Rightarrow> Some k')"
  by (induction ks rule: rev_induct)
     (simp_all add: last_labelled_def split: option.splits)

lemma index_keys_all:
  "list_all (self_certifies L) ks \<Longrightarrow>
   index_keys L keys ks =
     Inr (\<lambda>l. case last_labelled l ks of None \<Rightarrow> keys l | Some k \<Rightarrow> Some k)"
proof (induction ks arbitrary: keys)
  case Nil
  show ?case by (simp add: last_labelled_Nil)
next
  case (Cons k ks)
  have "index_keys L keys (k # ks) = index_keys L (keys(SignatureKey.Label k \<mapsto> k)) ks"
    using Cons.prems by (simp add: index_keys_step del: fun_upd_apply index_keys.simps)
  also have "\<dots> = Inr (\<lambda>l. case last_labelled l ks of
                             None \<Rightarrow> (keys(SignatureKey.Label k \<mapsto> k)) l | Some k' \<Rightarrow> Some k')"
    using Cons.prems by (intro Cons.IH) simp
  also have "(\<lambda>l. case last_labelled l ks of
                    None \<Rightarrow> (keys(SignatureKey.Label k \<mapsto> k)) l | Some k' \<Rightarrow> Some k') =
             (\<lambda>l. case last_labelled l (k # ks) of None \<Rightarrow> keys l | Some k' \<Rightarrow> Some k')"
    by (rule ext) (simp add: last_labelled_Cons split: option.splits)
  finally show ?case .
qed

lemma index_keys_Inr_all:
  "index_keys L keys ks = Inr keys' \<Longrightarrow> list_all (self_certifies L) ks"
proof (induction ks arbitrary: keys)
  case Nil
  show ?case by simp
next
  case (Cons k ks)
  from Cons.prems have sc: "self_certifies L k"
    unfolding index_keys_step by (simp split: if_splits)
  with Cons.prems have "index_keys L (keys(SignatureKey.Label k \<mapsto> k)) ks = Inr keys'"
    unfolding index_keys_step by simp
  then have "list_all (self_certifies L) ks"
    by (rule Cons.IH)
  with sc show ?case by simp
qed

lemma index_keys_Inr_iff:
  "index_keys L keys ks = Inr keys' \<longleftrightarrow>
     list_all (self_certifies L) ks \<and>
     keys' = (\<lambda>l. case last_labelled l ks of None \<Rightarrow> keys l | Some k \<Rightarrow> Some k)"
  using index_keys_all [of L ks keys] index_keys_Inr_all [of L keys ks keys'] by auto

lemma last_labelled_Some_Label:
  "last_labelled l ks = Some k \<Longrightarrow> SignatureKey.Label k = l \<and> k \<in> set ks"
proof -
  assume "last_labelled l ks = Some k"
  then obtain n where n: "n < length (rev ks)" "rev ks ! n = k" "SignatureKey.Label k = l"
    unfolding last_labelled_def find_Some_iff by blast
  from n(1) have "rev ks ! n \<in> set (rev ks)"
    by (rule nth_mem)
  with n show ?thesis by simp
qed

lemma last_labelled_None_iff:
  "last_labelled l ks = None \<longleftrightarrow> (\<forall>k\<in>set ks. SignatureKey.Label k \<noteq> l)"
  unfolding last_labelled_def by (auto simp: find_None_iff)

lemma last_labelled_duplicate:
  assumes "\<forall>k\<in>set zs. SignatureKey.Label k \<noteq> SignatureKey.Label k2"
  shows "last_labelled (SignatureKey.Label k2) (xs @ k1 # ys @ k2 # zs) = Some k2"
proof -
  have "last_labelled (SignatureKey.Label k2) ((xs @ k1 # ys) @ k2 # zs) = Some k2"
    using assms
  proof (induction zs rule: rev_induct)
    case Nil
    show ?case
      using last_labelled_snoc [of "SignatureKey.Label k2" "xs @ k1 # ys" k2] by simp
  next
    case (snoc z zs)
    then show ?case
      using last_labelled_snoc [of "SignatureKey.Label k2" "(xs @ k1 # ys) @ k2 # zs" z]
      by simp
  qed
  then show ?thesis by simp
qed

lemma case_option_same: "(case x of None \<Rightarrow> None | Some k \<Rightarrow> Some k) = x"
  by (cases x) simp_all

lemma index_keys_labels:
  assumes "index_keys L Map.empty sigKeys = Inr keys" and "keys l = Some key"
  shows "SignatureKey.Label key = l"
proof -
  from assms(1) have "keys = (\<lambda>l. last_labelled l sigKeys)"
    by (simp add: index_keys_Inr_iff case_option_same)
  with assms(2) show ?thesis
    using last_labelled_Some_Label by simp
qed

subsection \<open>The signature loop of VerifySignatures\<close>

lemma check_signatures_snd: "snd (check_signatures L keys sigs i) = i"
  by (induction sigs)
     (simp_all add: Let_def split: option.splits sum.splits)

lemma VerifySignatures_snd: "snd (VerifySignatures L sigKeys i) = i"
  by (simp add: VerifySignatures_def check_signatures_snd split: sum.splits)

lemma check_signatures_pass:
  "keys (By s) = Some key \<Longrightarrow> key_accepts L i key s \<Longrightarrow>
   check_signatures L keys (s # rest) i = check_signatures L keys rest i"
  by (auto simp: key_accepts_def base64_DecodeString_def ed25519_Verify_def
      split: option.splits)

lemma check_signatures_reject:
  "keys (By s) = Some key \<Longrightarrow> \<not> key_accepts L i key s \<Longrightarrow>
   fst (check_signatures L keys (s # rest) i) \<noteq> None"
  by (auto simp: key_accepts_def base64_DecodeString_def ed25519_Verify_def
      split: option.splits)

lemma check_signatures_missing:
  "keys (By s) = None \<Longrightarrow>
   check_signatures L keys (s # rest) i = (Some (Returned ErrMissingSignatureKey), i)"
  by simp

lemma check_signatures_None_iff:
  "fst (check_signatures L keys sigs i) = None \<longleftrightarrow>
   (\<forall>s\<in>set sigs. \<exists>key. keys (By s) = Some key \<and> key_accepts L i key s)"
proof (induction sigs)
  case Nil
  show ?case by simp
next
  case (Cons s sigs)
  show ?case
  proof (cases "keys (By s)")
    case None
    then show ?thesis
      by (simp only: check_signatures_missing) simp
  next
    case (Some key)
    show ?thesis
    proof (cases "key_accepts L i key s")
      case True
      with Some Cons.IH show ?thesis
        by (simp only: check_signatures_pass) simp
    next
      case False
      with Some check_signatures_reject [of keys s key L i sigs] show ?thesis
        by auto
    qed
  qed
qed

lemma check_signatures_append:
  "fst (check_signatures L keys xs i) = None \<Longrightarrow>
   check_signatures L keys (xs @ ys) i = check_signatures L keys ys i"
proof (induction xs)
  case Nil
  show ?case by simp
next
  case (Cons s xs)
  from Cons.prems obtain key where key: "keys (By s) = Some key" "key_accepts L i key s"
    unfolding check_signatures_None_iff by auto
  with Cons.prems have "fst (check_signatures L keys xs i) = None"
    by (simp only: check_signatures_pass)
  then have "check_signatures L keys (xs @ ys) i = check_signatures L keys ys i"
    by (rule Cons.IH)
  with key show ?case
    by (simp only: append_Cons check_signatures_pass)
qed

lemma key_accepts_record_verifies:
  "SignatureKey.Label k = By s \<Longrightarrow> key_accepts L i k s \<longleftrightarrow> record_verifies L i k s"
  by (simp add: key_accepts_def record_verifies_def IncludesRole_def cong: option.case_cong)

lemma key_accepts_Signature_update:
  "key_accepts L (i\<lparr>Signature := sigs\<rparr>) key s = key_accepts L i key s"
  by (simp add: key_accepts_def generateCleartext_Signature_update cong: option.case_cong)

lemma check_signatures_Signature_update:
  "fst (check_signatures L keys sigs (i\<lparr>Signature := x\<rparr>)) = None \<longleftrightarrow>
   fst (check_signatures L keys sigs i) = None"
  by (simp only: check_signatures_None_iff key_accepts_Signature_update)

lemma verifies_under_iff:
  "verifies_under L i sigKeys s \<longleftrightarrow>
     (\<exists>k. last_labelled (By s) sigKeys = Some k \<and> record_verifies L i k s)"
  by (simp add: verifies_under_def split: option.splits)

lemma VerifySignatures_index:
  "list_all (self_certifies L) sigKeys \<Longrightarrow>
   VerifySignatures L sigKeys i =
     check_signatures L (\<lambda>l. last_labelled l sigKeys) (elems (Invoice.Signature i)) i"
  by (simp add: VerifySignatures_def index_keys_all case_option_same)

lemma VerifySignatures_None_iff:
  "fst (VerifySignatures L sigKeys i) = None \<longleftrightarrow>
     (\<forall>k\<in>set sigKeys. self_certifies L k) \<and>
     (\<forall>s\<in>set (elems (Invoice.Signature i)).
        \<exists>k. last_labelled (By s) sigKeys = Some k \<and> record_verifies L i k s)"
proof (cases "list_all (self_certifies L) sigKeys")
  case True
  have "(\<exists>k. last_labelled (By s) sigKeys = Some k \<and> key_accepts L i k s) \<longleftrightarrow>
        (\<exists>k. last_labelled (By s) sigKeys = Some k \<and> record_verifies L i k s)" for s
    using key_accepts_record_verifies last_labelled_Some_Label by blast
  with True show ?thesis
    by (simp add: VerifySignatures_index check_signatures_None_iff list_all_iff)
next
  case False
  then have "\<And>keys. index_keys L Map.empty sigKeys \<noteq> Inr keys"
    using index_keys_Inr_all by blast
  then have "fst (VerifySignatures L sigKeys i) \<noteq> None"
    by (auto simp: VerifySignatures_def split: sum.splits)
  with False show ?thesis
    by (auto simp: list_all_iff)
qed

lemma VerifySignatures_first_invalid_key:
  assumes "list_all (self_certifies L) before"
    and "\<not> self_certifies L key"
  shows "VerifySignatures L (before @ key # after) i =
     (Some (case DecodeString L (SignatureKey.Key key) of
              None \<Rightarrow> Returned CorruptInputError
            | Some keyBytes \<Rightarrow>
                (case DecodeString L (LabelSignature key) of
                   None \<Rightarrow> Returned CorruptInputError
                 | Some labelSigBytes \<Rightarrow>
                     if length keyBytes \<noteq> 32 then Panicked (BadPublicKeyLength (length keyBytes))
                     else Returned ErrInvalidSignatureKey)), i)"
proof -
  have "index_keys L Map.empty (before @ key # after) =
          index_keys L (\<lambda>l. last_labelled l before) (key # after)"
    using assms(1) by (simp add: index_keys_append index_keys_all case_option_same)
  with assms(2) show ?thesis
    by (simp only: VerifySignatures_def index_keys_step if_False sum.case)
qed

lemma VerifySignatures_first_failing_record:
  assumes keys: "list_all (self_certifies L) sigKeys"
    and split: "elems (Invoice.Signature i) = before @ s # after"
    and before: "\<forall>r\<in>set before. \<exists>k. last_labelled (By r) sigKeys = Some k \<and> record_verifies L i k r"
  shows "VerifySignatures L sigKeys i =
           check_signatures L (\<lambda>l. last_labelled l sigKeys) (s # after) i"
proof -
  have "\<forall>r\<in>set before. \<exists>k. last_labelled (By r) sigKeys = Some k \<and> key_accepts L i k r"
    using before key_accepts_record_verifies last_labelled_Some_Label by blast
  then have "fst (check_signatures L (\<lambda>l. last_labelled l sigKeys) before i) = None"
    by (simp add: check_signatures_None_iff)
  then have "check_signatures L (\<lambda>l. last_labelled l sigKeys) (before @ s # after) i =
             check_signatures L (\<lambda>l. last_labelled l sigKeys) (s # after) i"
    by (rule check_signatures_append)
  with keys split show ?thesis
    by (simp add: VerifySignatures_index)
qed

lemma check_signatures_By_eq:
  assumes "\<forall>l key. keys l = Some key \<longrightarrow> SignatureKey.Label key = l"
  shows "check_signatures L keys sigs i = check_signatures_By L keys sigs i"
proof (induction sigs)
  case Nil
  show ?case by simp
next
  case (Cons s sigs)
  show ?case
  proof (cases "keys (By s)")
    case None
    then show ?thesis by simp
  next
    case (Some key)
    with assms have "SignatureKey.Label key = By s"
      by blast
    with Some Cons.IH show ?thesis
      by (auto split: sum.splits)
  qed
qed

lemma VerifySignatures_By_eq: "VerifySignatures L sigKeys i = VerifySignatures_By L sigKeys i"
proof (cases "index_keys L Map.empty sigKeys")
  case (Inl a)
  then show ?thesis
    by (simp add: VerifySignatures_def VerifySignatures_By_def)
next
  case (Inr keys)
  then have "\<forall>l key. keys l = Some key \<longrightarrow> SignatureKey.Label key = l"
    using index_keys_labels by blast
  then have "check_signatures L keys (elems (Invoice.Signature i)) i =
             check_signatures_By L keys (elems (Invoice.Signature i)) i"
    by (rule check_signatures_By_eq)
  with Inr show ?thesis
    by (simp add: VerifySignatures_def VerifySignatures_By_def)
qed

lemma check_signatures_never_panics:
  assumes "\<forall>l k. keys l = Some k \<longrightarrow> self_certifies L k"
  shows "fst (check_signatures L keys sigs i) \<noteq> Some (Panicked p)"
proof (induction sigs)
  case Nil
  show ?case by simp
next
  case (Cons s sigs)
  show ?case
  proof (cases "keys (By s)")
    case None
    then show ?thesis by simp
  next
    case (Some key)
    with assms have "self_certifies L key"
      by blast
    then obtain keyBytes where "DecodeString L (SignatureKey.Key key) = Some keyBytes"
        and "length keyBytes = 32"
      by (auto simp: self_certifies_def split: option.splits)
    with Some Cons.IH show ?thesis
      by (simp add: base64_DecodeString_def ed25519_Verify_def split: option.splits)
  qed
qed

text \<open>A panic of \<open>VerifySignatures\<close> is a panic of its first loop: a key that the second
  loop uses has passed the first with 32 bytes.\<close>

lemma VerifySignatures_panics_in_first_loop:
  assumes "fst (VerifySignatures L sigKeys i) = Some (Panicked p)"
  shows "index_keys L Map.empty sigKeys = Inl (Panicked p)"
proof (cases "index_keys L Map.empty sigKeys")
  case (Inl a)
  with assms show ?thesis
    by (simp add: VerifySignatures_def)
next
  case (Inr keys)
  then have "list_all (self_certifies L) sigKeys"
    and "keys = (\<lambda>l. last_labelled l sigKeys)"
    by (simp_all add: index_keys_Inr_iff case_option_same)
  then have "\<forall>l k. keys l = Some k \<longrightarrow> self_certifies L k"
    using last_labelled_Some_Label by (auto simp: list_all_iff)
  then have "fst (check_signatures L keys (elems (Invoice.Signature i)) i) \<noteq> Some (Panicked p)"
    by (rule check_signatures_never_panics)
  with Inr assms show ?thesis
    by (simp add: VerifySignatures_def)
qed

lemma sign_then_missing_key:
  assumes "fst (GenerateSignature L now author role sigKey privKey i) = None"
    and "self_certifies L sigKey"
    and "case elems (Invoice.Signature i) of
           [] \<Rightarrow> SignatureKey.Label sigKey \<noteq> author
         | s # rest \<Rightarrow> SignatureKey.Label sigKey \<noteq> By s"
  shows "fst (VerifySignatures L [sigKey]
           (snd (GenerateSignature L now author role sigKey privKey i))) =
         Some (Returned ErrMissingSignatureKey)"
proof -
  let ?i' = "snd (GenerateSignature L now author role sigKey privKey i)"
  from GenerateSignature_success [OF assms(1)] obtain s where
    s: "By s = author" and i': "?i' = i\<lparr>Signature := Some (elems (Invoice.Signature i) @ [s])\<rparr>"
    by force
  have "VerifySignatures L [sigKey] ?i' =
      check_signatures L (\<lambda>l. last_labelled l [sigKey]) (elems (Invoice.Signature ?i')) ?i'"
    using assms(2) by (intro VerifySignatures_index) simp
  also have "elems (Invoice.Signature ?i') = elems (Invoice.Signature i) @ [s]"
    by (simp add: i')
  finally show ?thesis
    using assms(3) s by (cases "elems (Invoice.Signature i)") (simp_all add: last_labelled_def)
qed

subsection \<open>The sample data\<close>

lemmas base64_defs =
  StdEncoding_DecodeString_def StdEncoding_EncodeToString_def decodeMap_def encodeStd_def
  char_of_def bit_0

lemma demo_libs_sel:
  "Sign demo_libs = demo_Sign" "Verify demo_libs = demo_Verify"
  "DecodeString demo_libs = StdEncoding_DecodeString"
  "EncodeToString demo_libs = StdEncoding_EncodeToString"
  by (simp_all add: demo_libs_def)

lemma demo_key_sel:
  "SignatureKey.Label demo_key = demo_author" "Roles demo_key = [''creator'', ''approver'']"
  by (simp_all add: demo_key_def)

lemma demo_record_sel:
  "By demo_record = demo_author" "Role demo_record = ''creator''"
  "Signature.Key demo_record = SignatureKey.Key demo_key"
  by (simp_all add: demo_record_def demo_key_def)

lemma demo_key_lengths:
  "length demo_privateKey = 64" "length demo_publicKey = 32"
  "drop 32 demo_privateKey = demo_publicKey"
  by (simp_all add: demo_privateKey_def demo_publicKey_def)

lemma demo_key_decoded:
  "StdEncoding_DecodeString (SignatureKey.Key demo_key) = Some demo_publicKey"
  by (simp add: demo_key_def demo_publicKey_def base64_defs)

lemma demo_key_encoded:
  "StdEncoding_EncodeToString demo_publicKey = SignatureKey.Key demo_key"
  by (simp add: demo_key_def demo_publicKey_def base64_defs)

lemma demo_label_signature_decoded:
  "StdEncoding_DecodeString (LabelSignature demo_key) = Some (demo_publicKey @ demo_author)"
  by (simp add: demo_key_def demo_publicKey_def demo_author_def base64_defs)

lemma demo_cleartext:
  "generateCleartext example_invoice demo_author ''creator'' =
     ''Matt Butcher <matt.butcher@example.com>\<newline>mybindle\<newline>0.1.0\<newline>creator\<newline>~\<newline>e1706ab0a39ac88094b6d54a3f5cdba41fe5a901\<newline>098fa798779ac88094b6d54a3f5cdba41fe5a901\<newline>5b992e90b71d5fadab3cd3777230ef370df75f5b''"
  by (simp add: generateCleartext_def example_invoice_def newline_def demo_author_def)

lemma demo_signature_encoded:
  "StdEncoding_EncodeToString
     (demo_publicKey @ generateCleartext example_invoice demo_author ''creator'') =
   Signature.Signature demo_record"
  by (simp add: demo_cleartext demo_record_def demo_publicKey_def base64_defs)

lemma demo_signature_decoded:
  "StdEncoding_DecodeString (Signature.Signature demo_record) =
   Some (demo_publicKey @ generateCleartext example_invoice demo_author ''creator'')"
  by (simp add: demo_cleartext demo_record_def demo_publicKey_def base64_defs)

lemma demo_key_self_certifies: "self_certifies demo_libs demo_key"
  by (simp add: self_certifies_def demo_libs_sel demo_key_decoded demo_label_signature_decoded
      demo_key_lengths demo_key_sel demo_Verify_def)

lemma demo_record_eq:
  "\<lparr>By = demo_author, Signature = Signature.Signature demo_record,
    Key = SignatureKey.Key demo_key, Role = ''creator'', At = 1600000000\<rparr> = demo_record"
  by (simp add: demo_record_def demo_key_def)

lemma demo_sign:
  "GenerateSignature demo_libs 1600000000 demo_author ''creator'' demo_key demo_privateKey
     example_invoice = (None, demo_signed)"
proof -
  have "demo_author \<in> set (Authors (Bindle example_invoice))"
    by (simp add: example_invoice_def demo_author_def)
  moreover have "IncludesRole demo_key ''creator''"
    by (simp add: IncludesRole_def demo_key_sel)
  moreover have "Invoice.Signature example_invoice = None"
    by (simp add: example_invoice_def)
  ultimately show ?thesis
    by (simp add: GenerateSignature_signs ed25519_Sign_def base64_DecodeString_def
        demo_libs_sel demo_key_lengths demo_key_decoded demo_Sign_def demo_key_encoded
        demo_signature_encoded demo_signed_def demo_record_eq)
qed

lemma demo_cleartext_signed:
  "generateCleartext demo_signed author role = generateCleartext example_invoice author role"
  by (simp add: demo_signed_def generateCleartext_Signature_update)

lemma demo_record_verifies: "record_verifies demo_libs demo_signed demo_key demo_record"
  by (simp add: record_verifies_def demo_key_sel demo_record_sel demo_libs_sel
      demo_key_decoded demo_signature_decoded demo_key_lengths demo_Verify_def
      demo_cleartext_signed)

lemma demo_preconditions:
  "''creator'' \<in> {''creator'', ''approver'', ''proxy'', ''host''}"
  "IncludesRole demo_key ''creator''"
  "demo_author \<in> set (Authors (Bindle example_invoice))"
  by (simp_all add: IncludesRole_def demo_key_sel example_invoice_def demo_author_def)

lemma demo_key_malformed_sel:
  "DecodeString demo_libs (SignatureKey.Key demo_key_malformed) = None"
  "IncludesRole demo_key_malformed ''creator''"
  by (simp_all add: demo_key_malformed_def demo_libs_sel base64_defs IncludesRole_def demo_key_sel)

lemma demo_key_short_sel:
  "DecodeString demo_libs (SignatureKey.Key demo_key_short) = Some ''ABC''"
  "DecodeString demo_libs (LabelSignature demo_key_short) = Some (demo_publicKey @ demo_author)"
  by (simp_all add: demo_key_short_def demo_libs_sel demo_label_signature_decoded)
     (simp add: base64_defs)

lemma demo_signed_sel:
  "elems (Invoice.Signature demo_signed) = [demo_record]"
  "Bindle demo_signed = Bindle example_invoice"
  "Parcel demo_signed = Parcel example_invoice"
  by (simp_all add: demo_signed_def)

lemma demo_key_host_sel:
  "SignatureKey.Label demo_key_host = demo_author" "Roles demo_key_host = [''host'']"
  "SignatureKey.Key demo_key_host = SignatureKey.Key demo_key"
  "LabelSignature demo_key_host = LabelSignature demo_key"
  by (simp_all add: demo_key_host_def demo_key_sel)

lemma demo_key_host_self_certifies: "self_certifies demo_libs demo_key_host"
  using demo_key_self_certifies
  by (simp add: self_certifies_def demo_key_host_sel demo_key_sel cong: option.case_cong)

lemma demo_verifies_under: "verifies_under demo_libs demo_signed [demo_key] demo_record"
  by (simp add: verifies_under_def last_labelled_def demo_key_sel demo_record_sel
      demo_record_verifies)

lemma demo_key_release_sel:
  "SignatureKey.Label demo_key_release = ''release key''"
  "Roles demo_key_release = [''creator'', ''approver'']"
  "SignatureKey.Key demo_key_release = SignatureKey.Key demo_key"
  by (simp_all add: demo_key_release_def demo_key_def)

lemma demo_key_release_label_signature:
  "StdEncoding_DecodeString (LabelSignature demo_key_release) =
     Some (demo_publicKey @ ''release key'')"
  by (simp add: demo_key_release_def demo_publicKey_def base64_defs)

lemma demo_key_release_self_certifies: "self_certifies demo_libs demo_key_release"
  by (simp add: self_certifies_def demo_libs_sel demo_key_release_sel demo_key_decoded
      demo_key_release_label_signature demo_key_lengths demo_Verify_def)

lemma demo_pair:
  "\<forall>pubKey message. DecodeString demo_libs (SignatureKey.Key demo_key) = Some pubKey \<longrightarrow>
     Verify demo_libs pubKey message (Sign demo_libs demo_privateKey message)"
  by (simp add: demo_libs_sel demo_key_decoded demo_Verify_def demo_Sign_def demo_key_lengths)

lemma demo_roundtrip:
  "DecodeString demo_libs (EncodeToString demo_libs
      (Sign demo_libs demo_privateKey (generateCleartext i demo_author ''creator''))) =
   Some (Sign demo_libs demo_privateKey (generateCleartext i demo_author ''creator''))"
  if "Bindle i = Bindle example_invoice" "Parcel i = Parcel example_invoice"
proof -
  have "generateCleartext i demo_author ''creator'' =
        generateCleartext example_invoice demo_author ''creator''"
    using that by (simp add: generateCleartext_def)
  then show ?thesis
    by (simp add: demo_libs_sel demo_Sign_def demo_key_lengths demo_signature_encoded
        demo_signature_decoded)
qed

lemma demo_key_forged_sel:
  "SignatureKey.Label demo_key_forged = demo_author"
  "SignatureKey.Key demo_key_forged = SignatureKey.Key demo_key"
  by (simp_all add: demo_key_forged_def demo_key_sel)

lemma demo_key_forged_label_signature:
  "StdEncoding_DecodeString (LabelSignature demo_key_forged) =
     Some ''not the signature of the label''"
  by (simp add: demo_key_forged_def base64_defs)

lemma demo_key_forged_rejected:
  "\<not> Verify demo_libs demo_publicKey (SignatureKey.Label demo_key_forged)
       ''not the signature of the label''"
  by (simp add: demo_libs_sel demo_Verify_def demo_publicKey_def)

section \<open>The claims\<close>

text \<open>
  C1. The canonical text is the author, the bindle name, the bindle version, the role and
  the token \<open>~\<close>, then the SHA256 string of each parcel in list order, every field set off
  from the one before it by a single newline and copied as it is. On the invoice of the
  source's format comment, signed by its author as creator, the text is the eight lines of
  that comment.
\<close>

theorem C1_canonical_text:
  "generateCleartext i author role =
     author @ newline @ Name (Bindle i) @ newline @ Version (Bindle i) @ newline @
     role @ newline @ ''~'' @
     concat (map (\<lambda>p. newline @ SHA256 (Parcel.Label p)) (Parcel i))
   \<and> generateCleartext example_invoice ''Matt Butcher <matt.butcher@example.com>'' ''creator'' =
     ''Matt Butcher <matt.butcher@example.com>\<newline>mybindle\<newline>0.1.0\<newline>creator\<newline>~\<newline>e1706ab0a39ac88094b6d54a3f5cdba41fe5a901\<newline>098fa798779ac88094b6d54a3f5cdba41fe5a901\<newline>5b992e90b71d5fadab3cd3777230ef370df75f5b''"
proof
  show "generateCleartext i author role =
     author @ newline @ Name (Bindle i) @ newline @ Version (Bindle i) @ newline @
     role @ newline @ ''~'' @
     concat (map (\<lambda>p. newline @ SHA256 (Parcel.Label p)) (Parcel i))"
    by (rule generateCleartext_eq)
next
  show "generateCleartext example_invoice ''Matt Butcher <matt.butcher@example.com>'' ''creator'' =
     ''Matt Butcher <matt.butcher@example.com>\<newline>mybindle\<newline>0.1.0\<newline>creator\<newline>~\<newline>e1706ab0a39ac88094b6d54a3f5cdba41fe5a901\<newline>098fa798779ac88094b6d54a3f5cdba41fe5a901\<newline>5b992e90b71d5fadab3cd3777230ef370df75f5b''"
    by (simp add: generateCleartext_def example_invoice_def newline_def)
qed

text \<open>
  C2, as amended. Take a signature key whose \<open>Label\<close> is the author, a private key that
  matches the key's public key (what it signs verifies under the decoded \<open>Key\<close>), a
  base64 that decodes the signature it has just encoded, and an invoice on which
  \<open>VerifySignatures\<close> with that one key returns \<open>nil\<close> (the key's self-certificate is
  valid and every signature already on the invoice verifies under it; on an invoice with
  no signature this is the validity of the self-certificate alone). Then
  \<open>GenerateSignature\<close> returns \<open>nil\<close> exactly when the role is in the vocabulary, the key
  includes the role, the author is on the invoice and the private key has 64 bytes; and
  when it returns \<open>nil\<close>, \<open>VerifySignatures\<close> with the same key returns \<open>nil\<close> on the
  invoice it leaves.
\<close>

theorem C2_sign_then_verify:
  assumes roundtrip:
      "DecodeString L (EncodeToString L (Sign L privKey (generateCleartext i author role))) =
         Some (Sign L privKey (generateCleartext i author role))"
    and pair: "\<forall>pubKey message. DecodeString L (SignatureKey.Key sigKey) = Some pubKey \<longrightarrow>
                 Verify L pubKey message (Sign L privKey message)"
    and label: "SignatureKey.Label sigKey = author"
    and before: "fst (VerifySignatures L [sigKey] i) = None"
  shows "(fst (GenerateSignature L now author role sigKey privKey i) = None \<longleftrightarrow>
            role \<in> {''creator'', ''approver'', ''proxy'', ''host''} \<and> IncludesRole sigKey role \<and>
            author \<in> set (Authors (Bindle i)) \<and> length privKey = 64)
       \<and> (fst (GenerateSignature L now author role sigKey privKey i) = None \<longrightarrow>
            fst (VerifySignatures L [sigKey]
                   (snd (GenerateSignature L now author role sigKey privKey i))) = None)"
proof -
  let ?r = "GenerateSignature L now author role sigKey privKey i"
  let ?keys = "\<lambda>l. last_labelled l [sigKey]"
  from before have cert: "self_certifies L sigKey"
    and old: "\<forall>s\<in>set (elems (Invoice.Signature i)).
                \<exists>k. last_labelled (By s) [sigKey] = Some k \<and> record_verifies L i k s"
    by (simp_all add: VerifySignatures_None_iff)
  from cert obtain pubKey where pub: "DecodeString L (SignatureKey.Key sigKey) = Some pubKey"
      "length pubKey = 32"
    by (auto simp: self_certifies_def split: option.splits)
  have first: "fst ?r = None \<longleftrightarrow>
      role \<in> {''creator'', ''approver'', ''proxy'', ''host''} \<and> IncludesRole sigKey role \<and>
      author \<in> set (Authors (Bindle i)) \<and> length privKey = 64"
    using pub by (simp add: GenerateSignature_None_iff)
  have second: "fst (VerifySignatures L [sigKey] (snd ?r)) = None" if ok: "fst ?r = None"
  proof -
    define s where "s = \<lparr>By = author,
        Signature = EncodeToString L (Sign L privKey (generateCleartext i author role)),
        Key = EncodeToString L pubKey, Role = role, At = now\<rparr>"
    from ok pub have after: "snd ?r = i\<lparr>Signature := Some (elems (Invoice.Signature i) @ [s])\<rparr>"
      using GenerateSignature_success [of L now author role sigKey privKey i]
      by (auto simp: s_def)
    from ok have role: "IncludesRole sigKey role"
      by (simp add: GenerateSignature_None_iff)
    have "\<forall>r\<in>set (elems (Invoice.Signature i)).
            \<exists>k. last_labelled (By r) [sigKey] = Some k \<and> key_accepts L i k r"
      using old key_accepts_record_verifies last_labelled_Some_Label by blast
    then have olds: "fst (check_signatures L ?keys (elems (Invoice.Signature i)) i) = None"
      by (simp add: check_signatures_None_iff)
    have found: "?keys (By s) = Some sigKey"
      using label by (simp add: s_def last_labelled_def)
    have "Verify L pubKey (generateCleartext i author role)
            (Sign L privKey (generateCleartext i author role))"
      using pair pub by blast
    with role pub roundtrip label have new: "key_accepts L i sigKey s"
      by (simp add: key_accepts_def s_def)
    have "check_signatures L ?keys (elems (Invoice.Signature i) @ [s]) i =
          check_signatures L ?keys [s] i"
      using olds by (rule check_signatures_append)
    also have "\<dots> = check_signatures L ?keys [] i"
      using found new by (rule check_signatures_pass)
    finally have "fst (check_signatures L ?keys (elems (Invoice.Signature i) @ [s]) i) = None"
      by simp
    then have "fst (check_signatures L ?keys (elems (Invoice.Signature i) @ [s]) (snd ?r)) = None"
      unfolding after by (simp only: check_signatures_Signature_update)
    moreover have "VerifySignatures L [sigKey] (snd ?r) =
        check_signatures L ?keys (elems (Invoice.Signature (snd ?r))) (snd ?r)"
      using cert by (intro VerifySignatures_index) simp
    ultimately show ?thesis
      by (simp add: after)
  qed
  from first second show ?thesis
    by blast
qed

text \<open>The sample key signs the example invoice for its author as creator, and the signed
  invoice verifies under the key.\<close>

theorem C2_witness:
  "SignatureKey.Label demo_key = demo_author \<and>
   fst (VerifySignatures demo_libs [demo_key] example_invoice) = None \<and>
   fst (GenerateSignature demo_libs 1600000000 demo_author ''creator'' demo_key demo_privateKey
          example_invoice) = None \<and>
   fst (VerifySignatures demo_libs [demo_key]
          (snd (GenerateSignature demo_libs 1600000000 demo_author ''creator'' demo_key
                  demo_privateKey example_invoice))) = None"
proof -
  have label: "SignatureKey.Label demo_key = demo_author"
    by (rule demo_key_sel)
  have before: "fst (VerifySignatures demo_libs [demo_key] example_invoice) = None"
    by (simp add: VerifySignatures_None_iff demo_key_self_certifies example_invoice_def)
  have roundtrip: "DecodeString demo_libs (EncodeToString demo_libs
      (Sign demo_libs demo_privateKey (generateCleartext example_invoice demo_author ''creator''))) =
      Some (Sign demo_libs demo_privateKey (generateCleartext example_invoice demo_author ''creator''))"
    by (rule demo_roundtrip) simp_all
  note T = C2_sign_then_verify [where L = demo_libs and now = 1600000000 and role = "''creator''",
     OF roundtrip demo_pair label before]
  have "''creator'' \<in> {''creator'', ''approver'', ''proxy'', ''host''} \<and>
      IncludesRole demo_key ''creator'' \<and> demo_author \<in> set (Authors (Bindle example_invoice)) \<and>
      length demo_privateKey = 64"
    by (simp add: demo_preconditions demo_key_lengths)
  then have signed: "fst (GenerateSignature demo_libs 1600000000 demo_author ''creator'' demo_key
      demo_privateKey example_invoice) = None"
    by (rule T [THEN conjunct1, THEN iffD2])
  then have "fst (VerifySignatures demo_libs [demo_key]
          (snd (GenerateSignature demo_libs 1600000000 demo_author ''creator'' demo_key
                  demo_privateKey example_invoice))) = None"
    by (rule T [THEN conjunct2, THEN mp])
  with label before signed show ?thesis
    by (intro conjI)
qed

text \<open>
  As stated, without the two conditions on the label and on the earlier signatures, the
  round trip fails. A self-certified key labelled \<open>release key\<close> signs for the author of
  the example invoice, and verification with that key finds no key under the record's
  \<open>By\<close>. The sample key signs an invoice that carries a signature by another author, and
  verification with the sample key alone stops at that earlier record. Both calls return
  \<open>ErrMissingSignatureKey\<close>.
\<close>

theorem C2_counterexample:
  "DecodeString demo_libs (SignatureKey.Key demo_key_release) = Some demo_publicKey \<and>
   (\<forall>message. Verify demo_libs demo_publicKey message (Sign demo_libs demo_privateKey message)) \<and>
   self_certifies demo_libs demo_key_release \<and>
   fst (GenerateSignature demo_libs 1600000000 demo_author ''creator'' demo_key_release
          demo_privateKey example_invoice) = None \<and>
   fst (VerifySignatures demo_libs [demo_key_release]
          (snd (GenerateSignature demo_libs 1600000000 demo_author ''creator'' demo_key_release
                  demo_privateKey example_invoice))) = Some (Returned ErrMissingSignatureKey) \<and>
   self_certifies demo_libs demo_key \<and>
   fst (GenerateSignature demo_libs 1600000000 demo_author ''creator'' demo_key
          demo_privateKey demo_countersigned) = None \<and>
   fst (VerifySignatures demo_libs [demo_key]
          (snd (GenerateSignature demo_libs 1600000000 demo_author ''creator'' demo_key
                  demo_privateKey demo_countersigned))) = Some (Returned ErrMissingSignatureKey)"
proof -
  have k: "DecodeString demo_libs (SignatureKey.Key demo_key_release) = Some demo_publicKey"
    by (simp add: demo_libs_sel demo_key_release_sel demo_key_decoded)
  have p: "\<forall>message. Verify demo_libs demo_publicKey message
      (Sign demo_libs demo_privateKey message)"
    by (simp add: demo_libs_sel demo_Verify_def demo_Sign_def demo_key_lengths)
  have s1: "fst (GenerateSignature demo_libs 1600000000 demo_author ''creator'' demo_key_release
          demo_privateKey example_invoice) = None"
    by (simp add: GenerateSignature_None_iff demo_preconditions demo_key_lengths
        IncludesRole_def demo_key_release_sel demo_libs_sel demo_key_decoded)
  have v1: "fst (VerifySignatures demo_libs [demo_key_release]
          (snd (GenerateSignature demo_libs 1600000000 demo_author ''creator'' demo_key_release
                  demo_privateKey example_invoice))) = Some (Returned ErrMissingSignatureKey)"
    using s1 demo_key_release_self_certifies
    by (rule sign_then_missing_key)
       (simp add: example_invoice_def demo_key_release_sel demo_author_def)
  have s2: "fst (GenerateSignature demo_libs 1600000000 demo_author ''creator'' demo_key
          demo_privateKey demo_countersigned) = None"
    by (simp add: GenerateSignature_None_iff demo_preconditions demo_key_lengths
        demo_libs_sel demo_key_decoded demo_countersigned_def)
  have v2: "fst (VerifySignatures demo_libs [demo_key]
          (snd (GenerateSignature demo_libs 1600000000 demo_author ''creator'' demo_key
                  demo_privateKey demo_countersigned))) = Some (Returned ErrMissingSignatureKey)"
    using s2 demo_key_self_certifies
    by (rule sign_then_missing_key)
       (simp add: demo_countersigned_def demo_key_sel demo_author_def)
  from k p demo_key_release_self_certifies s1 v1 demo_key_self_certifies s2 v2 show ?thesis
    by (intro conjI)
qed

text \<open>
  C3, as amended. \<open>VerifySignatures\<close> returns \<open>nil\<close> if and only if every supplied key
  self-certifies and every signature record of the invoice verifies under the supplied
  keys, that is, against the last supplied key whose \<open>Label\<close> is the record's \<open>By\<close>,
  with the record's \<open>Role\<close> among that key's roles. There is no partial success: when
  all keys self-certify and the records before some record verify, the call returns
  \<open>ErrMissingSignatureKey\<close> if no supplied key is labelled with that record's \<open>By\<close>,
  \<open>ErrSignatureKeyRoleMismatch\<close> if the last key so labelled lacks the record's \<open>Role\<close>,
  and \<open>ErrInvalidSignature\<close> if that key has the role, the signature decodes and the
  signature check over the rebuilt canonical text fails. The invoice is returned as it
  was.
\<close>

theorem C3_all_or_nothing:
  "(fst (VerifySignatures L sigKeys i) = None \<longleftrightarrow>
      (\<forall>k\<in>set sigKeys. self_certifies L k) \<and>
      (\<forall>s\<in>set (elems (Invoice.Signature i)). verifies_under L i sigKeys s))
   \<and> (\<forall>before s after.
        (\<forall>k\<in>set sigKeys. self_certifies L k) \<and>
        elems (Invoice.Signature i) = before @ s # after \<and>
        (\<forall>r\<in>set before. verifies_under L i sigKeys r)
        \<longrightarrow>
        ((\<forall>k\<in>set sigKeys. SignatureKey.Label k \<noteq> By s) \<longrightarrow>
           VerifySignatures L sigKeys i = (Some (Returned ErrMissingSignatureKey), i)) \<and>
        (\<forall>k. last_labelled (By s) sigKeys = Some k \<and> Role s \<notin> set (Roles k) \<longrightarrow>
           VerifySignatures L sigKeys i = (Some (Returned ErrSignatureKeyRoleMismatch), i)) \<and>
        (\<forall>k keyBytes sigBytes.
           last_labelled (By s) sigKeys = Some k \<and> Role s \<in> set (Roles k) \<and>
           DecodeString L (SignatureKey.Key k) = Some keyBytes \<and>
           DecodeString L (Signature.Signature s) = Some sigBytes \<and>
           \<not> Verify L keyBytes (generateCleartext i (By s) (Role s)) sigBytes \<longrightarrow>
           VerifySignatures L sigKeys i = (Some (Returned ErrInvalidSignature), i)))"
proof (intro conjI allI impI)
  show "fst (VerifySignatures L sigKeys i) = None \<longleftrightarrow>
      (\<forall>k\<in>set sigKeys. self_certifies L k) \<and>
      (\<forall>s\<in>set (elems (Invoice.Signature i)). verifies_under L i sigKeys s)"
    by (simp only: VerifySignatures_None_iff verifies_under_iff)
next
  fix before after :: "Signature list" and s :: Signature
  assume pre: "(\<forall>k\<in>set sigKeys. self_certifies L k) \<and>
        elems (Invoice.Signature i) = before @ s # after \<and>
        (\<forall>r\<in>set before. verifies_under L i sigKeys r)"
  then have step: "VerifySignatures L sigKeys i =
           check_signatures L (\<lambda>l. last_labelled l sigKeys) (s # after) i"
    by (intro VerifySignatures_first_failing_record [of L sigKeys i before s after])
       (simp_all add: list_all_iff verifies_under_iff)
  {
    assume "\<forall>k\<in>set sigKeys. SignatureKey.Label k \<noteq> By s"
    then have "last_labelled (By s) sigKeys = None"
      by (simp add: last_labelled_None_iff)
    then show "VerifySignatures L sigKeys i = (Some (Returned ErrMissingSignatureKey), i)"
      by (simp add: step)
  }
  {
    fix k
    assume "last_labelled (By s) sigKeys = Some k \<and> Role s \<notin> set (Roles k)"
    then show "VerifySignatures L sigKeys i = (Some (Returned ErrSignatureKeyRoleMismatch), i)"
      by (simp add: step IncludesRole_def)
  }
  {
    fix k :: SignatureKey and keyBytes sigBytes
    assume a: "last_labelled (By s) sigKeys = Some k \<and> Role s \<in> set (Roles k) \<and>
           DecodeString L (SignatureKey.Key k) = Some keyBytes \<and>
           DecodeString L (Signature.Signature s) = Some sigBytes \<and>
           \<not> Verify L keyBytes (generateCleartext i (By s) (Role s)) sigBytes"
    then have label: "SignatureKey.Label k = By s" and mem: "k \<in> set sigKeys"
      using last_labelled_Some_Label by blast+
    with pre have "self_certifies L k"
      by blast
    with a have "length keyBytes = 32"
      by (simp add: self_certifies_def split: option.splits)
    with a label show "VerifySignatures L sigKeys i = (Some (Returned ErrInvalidSignature), i)"
      by (simp add: step IncludesRole_def base64_DecodeString_def ed25519_Verify_def)
  }
qed

text \<open>The signed sample invoice: accepted under the sample key; no key is supplied; the
  only key supplied is for the host role; the parcels were reordered after signing.\<close>

theorem C3_witness:
  "fst (VerifySignatures demo_libs [demo_key] demo_signed) = None \<and>
   VerifySignatures demo_libs [] demo_signed = (Some (Returned ErrMissingSignatureKey), demo_signed) \<and>
   VerifySignatures demo_libs [demo_key_host] demo_signed =
     (Some (Returned ErrSignatureKeyRoleMismatch), demo_signed) \<and>
   VerifySignatures demo_libs [demo_key] demo_tampered =
     (Some (Returned ErrInvalidSignature), demo_tampered)"
proof -
  have sigs: "elems (Invoice.Signature demo_signed) = [] @ demo_record # []"
    and sigs': "elems (Invoice.Signature demo_tampered) = [] @ demo_record # []"
    by (simp_all add: demo_signed_sel demo_tampered_def)
  have "(\<forall>k\<in>set [demo_key]. self_certifies demo_libs k) \<and>
      (\<forall>s\<in>set (elems (Invoice.Signature demo_signed)).
         verifies_under demo_libs demo_signed [demo_key] s)"
    by (simp add: demo_key_self_certifies demo_signed_sel demo_verifies_under)
  then have c1: "fst (VerifySignatures demo_libs [demo_key] demo_signed) = None"
    by (rule C3_all_or_nothing [where L = demo_libs and sigKeys = "[demo_key]"
          and i = demo_signed, THEN conjunct1, THEN iffD2])
  have h2: "(\<forall>k\<in>set []. self_certifies demo_libs k) \<and>
        elems (Invoice.Signature demo_signed) = [] @ demo_record # [] \<and>
        (\<forall>r\<in>set []. verifies_under demo_libs demo_signed [] r)"
    using sigs by simp
  have m2: "\<forall>k\<in>set ([] :: SignatureKey list). SignatureKey.Label k \<noteq> By demo_record"
    by simp
  have c2: "VerifySignatures demo_libs [] demo_signed =
      (Some (Returned ErrMissingSignatureKey), demo_signed)"
    by (rule C3_all_or_nothing [where L = demo_libs and sigKeys = "[]" and i = demo_signed,
          THEN conjunct2, THEN spec, THEN spec, THEN spec, THEN mp, OF h2, THEN conjunct1,
          THEN mp, OF m2])
  have h3: "(\<forall>k\<in>set [demo_key_host]. self_certifies demo_libs k) \<and>
        elems (Invoice.Signature demo_signed) = [] @ demo_record # [] \<and>
        (\<forall>r\<in>set []. verifies_under demo_libs demo_signed [demo_key_host] r)"
    using sigs by (simp add: demo_key_host_self_certifies)
  have m3: "last_labelled (By demo_record) [demo_key_host] = Some demo_key_host \<and>
      Role demo_record \<notin> set (Roles demo_key_host)"
    by (simp add: last_labelled_def demo_key_host_sel demo_record_sel)
  have c3: "VerifySignatures demo_libs [demo_key_host] demo_signed =
      (Some (Returned ErrSignatureKeyRoleMismatch), demo_signed)"
    by (rule C3_all_or_nothing [where L = demo_libs and sigKeys = "[demo_key_host]"
          and i = demo_signed, THEN conjunct2, THEN spec, THEN spec, THEN spec, THEN mp,
          OF h3, THEN conjunct2, THEN conjunct1, THEN spec, THEN mp, OF m3])
  have h4: "(\<forall>k\<in>set [demo_key]. self_certifies demo_libs k) \<and>
        elems (Invoice.Signature demo_tampered) = [] @ demo_record # [] \<and>
        (\<forall>r\<in>set []. verifies_under demo_libs demo_tampered [demo_key] r)"
    using sigs' by (simp add: demo_key_self_certifies)
  have m4: "last_labelled (By demo_record) [demo_key] = Some demo_key \<and>
      Role demo_record \<in> set (Roles demo_key) \<and>
      DecodeString demo_libs (SignatureKey.Key demo_key) = Some demo_publicKey \<and>
      DecodeString demo_libs (Signature.Signature demo_record) =
        Some (demo_publicKey @ generateCleartext example_invoice demo_author ''creator'') \<and>
      \<not> Verify demo_libs demo_publicKey
           (generateCleartext demo_tampered (By demo_record) (Role demo_record))
           (demo_publicKey @ generateCleartext example_invoice demo_author ''creator'')"
    by (simp add: last_labelled_def demo_key_sel demo_record_sel demo_libs_sel demo_key_decoded
        demo_signature_decoded demo_Verify_def)
       (simp add: generateCleartext_def demo_tampered_def demo_signed_def example_invoice_def
        newline_def)
  have c4: "VerifySignatures demo_libs [demo_key] demo_tampered =
      (Some (Returned ErrInvalidSignature), demo_tampered)"
    by (rule C3_all_or_nothing [where L = demo_libs and sigKeys = "[demo_key]"
          and i = demo_tampered, THEN conjunct2, THEN spec, THEN spec, THEN spec, THEN mp,
          OF h4, THEN conjunct2, THEN conjunct2, THEN spec, THEN spec, THEN spec, THEN mp,
          OF m4])
  from c1 c2 c3 c4 show ?thesis
    by (intro conjI)
qed

text \<open>
  As stated, with "some supplied key" in place of the last key of that label, the
  equivalence fails. Two self-certified keys carry the author's label, the first with the
  creator role and the second without. The creator's record verifies against the first,
  so the stated condition holds; the index keeps the second, and the call returns
  \<open>ErrSignatureKeyRoleMismatch\<close>.
\<close>

theorem C3_counterexample:
  "\<not> (fst (VerifySignatures demo_libs [demo_key, demo_key_host] demo_signed) = None \<longleftrightarrow>
        (\<forall>k\<in>set [demo_key, demo_key_host]. self_certifies demo_libs k) \<and>
        (\<forall>s\<in>set (elems (Invoice.Signature demo_signed)).
           \<exists>k\<in>set [demo_key, demo_key_host]. record_verifies demo_libs demo_signed k s))"
proof -
  have "last_labelled (By demo_record) [demo_key, demo_key_host] = Some demo_key_host"
    by (simp add: last_labelled_def demo_key_host_sel demo_record_sel)
  moreover have "\<not> record_verifies demo_libs demo_signed demo_key_host demo_record"
    by (simp add: record_verifies_def demo_key_host_sel demo_record_sel)
  ultimately have "\<not> verifies_under demo_libs demo_signed [demo_key, demo_key_host] demo_record"
    by (simp add: verifies_under_def)
  then have "fst (VerifySignatures demo_libs [demo_key, demo_key_host] demo_signed) \<noteq> None"
    by (simp add: VerifySignatures_None_iff verifies_under_iff demo_signed_sel)
  moreover have "(\<forall>k\<in>set [demo_key, demo_key_host]. self_certifies demo_libs k) \<and>
        (\<forall>s\<in>set (elems (Invoice.Signature demo_signed)).
           \<exists>k\<in>set [demo_key, demo_key_host]. record_verifies demo_libs demo_signed k s)"
    by (simp add: demo_key_self_certifies demo_key_host_self_certifies demo_signed_sel
        demo_record_verifies)
  ultimately show ?thesis
    by simp
qed

text \<open>
  C4, as amended. In the first loop, when every key before some key of the list
  self-certifies and that key has well-formed base64 fields, a 32-byte public key and a
  label signature that does not verify under the key over its \<open>Label\<close>, the whole call
  returns \<open>ErrInvalidSignatureKey\<close> at once, whatever the keys after it and the
  signatures of the invoice are: the key is not merely left out. When all supplied keys
  self-certify, the index maps a label to the last key of the list that carries it, and
  the second loop runs on that index; of two keys with one label the later is the one
  kept, and the duplicate is not rejected.
\<close>

theorem C4_key_index:
  "(\<forall>before key after keyBytes labelSigBytes.
      (\<forall>k\<in>set before. self_certifies L k) \<and>
      DecodeString L (SignatureKey.Key key) = Some keyBytes \<and> length keyBytes = 32 \<and>
      DecodeString L (LabelSignature key) = Some labelSigBytes \<and>
      \<not> Verify L keyBytes (SignatureKey.Label key) labelSigBytes \<longrightarrow>
      VerifySignatures L (before @ key # after) i = (Some (Returned ErrInvalidSignatureKey), i))
   \<and> ((\<forall>k\<in>set sigKeys. self_certifies L k) \<longrightarrow>
        index_keys L Map.empty sigKeys = Inr (\<lambda>l. last_labelled l sigKeys) \<and>
        VerifySignatures L sigKeys i =
          check_signatures L (\<lambda>l. last_labelled l sigKeys) (elems (Invoice.Signature i)) i)
   \<and> (\<forall>xs k1 ys k2 zs.
        SignatureKey.Label k1 = SignatureKey.Label k2 \<and>
        (\<forall>k\<in>set zs. SignatureKey.Label k \<noteq> SignatureKey.Label k2) \<longrightarrow>
        last_labelled (SignatureKey.Label k2) (xs @ k1 # ys @ k2 # zs) = Some k2)"
proof (intro conjI allI impI)
  fix before after :: "SignatureKey list" and key :: SignatureKey and keyBytes labelSigBytes
  assume a: "(\<forall>k\<in>set before. self_certifies L k) \<and>
      DecodeString L (SignatureKey.Key key) = Some keyBytes \<and> length keyBytes = 32 \<and>
      DecodeString L (LabelSignature key) = Some labelSigBytes \<and>
      \<not> Verify L keyBytes (SignatureKey.Label key) labelSigBytes"
  then have "list_all (self_certifies L) before" and "\<not> self_certifies L key"
    by (simp_all add: list_all_iff self_certifies_def)
  then have "VerifySignatures L (before @ key # after) i =
     (Some (case DecodeString L (SignatureKey.Key key) of
              None \<Rightarrow> Returned CorruptInputError
            | Some keyBytes \<Rightarrow>
                (case DecodeString L (LabelSignature key) of
                   None \<Rightarrow> Returned CorruptInputError
                 | Some labelSigBytes \<Rightarrow>
                     if length keyBytes \<noteq> 32 then Panicked (BadPublicKeyLength (length keyBytes))
                     else Returned ErrInvalidSignatureKey)), i)"
    by (rule VerifySignatures_first_invalid_key)
  with a show "VerifySignatures L (before @ key # after) i =
      (Some (Returned ErrInvalidSignatureKey), i)"
    by simp
next
  assume "\<forall>k\<in>set sigKeys. self_certifies L k"
  then have all: "list_all (self_certifies L) sigKeys"
    by (simp add: list_all_iff)
  then show "index_keys L Map.empty sigKeys = Inr (\<lambda>l. last_labelled l sigKeys)"
    by (simp add: index_keys_all case_option_same)
  from all show "VerifySignatures L sigKeys i =
      check_signatures L (\<lambda>l. last_labelled l sigKeys) (elems (Invoice.Signature i)) i"
    by (rule VerifySignatures_index)
next
  fix xs ys zs :: "SignatureKey list" and k1 k2 :: SignatureKey
  assume "SignatureKey.Label k1 = SignatureKey.Label k2 \<and>
        (\<forall>k\<in>set zs. SignatureKey.Label k \<noteq> SignatureKey.Label k2)"
  then show "last_labelled (SignatureKey.Label k2) (xs @ k1 # ys @ k2 # zs) = Some k2"
    by (intro last_labelled_duplicate) simp
qed

text \<open>A key with a forged label signature between two copies of the sample key; and two
  self-certified keys with the author's label, of which the later is indexed.\<close>

theorem C4_witness:
  "self_certifies demo_libs demo_key \<and>
   DecodeString demo_libs (SignatureKey.Key demo_key_forged) = Some demo_publicKey \<and>
   DecodeString demo_libs (LabelSignature demo_key_forged) = Some ''not the signature of the label'' \<and>
   \<not> Verify demo_libs demo_publicKey (SignatureKey.Label demo_key_forged)
       ''not the signature of the label'' \<and>
   VerifySignatures demo_libs [demo_key, demo_key_forged, demo_key] demo_signed =
     (Some (Returned ErrInvalidSignatureKey), demo_signed) \<and>
   self_certifies demo_libs demo_key_host \<and>
   SignatureKey.Label demo_key_host = SignatureKey.Label demo_key \<and>
   last_labelled (SignatureKey.Label demo_key) [demo_key_host, demo_key] = Some demo_key \<and>
   VerifySignatures demo_libs [demo_key_host, demo_key] demo_signed =
     check_signatures demo_libs (\<lambda>l. last_labelled l [demo_key_host, demo_key])
       (elems (Invoice.Signature demo_signed)) demo_signed"
proof -
  note T = C4_key_index [where L = demo_libs and i = demo_signed
      and sigKeys = "[demo_key_host, demo_key]"]
  have d1: "DecodeString demo_libs (SignatureKey.Key demo_key_forged) = Some demo_publicKey"
    and d2: "DecodeString demo_libs (LabelSignature demo_key_forged) =
      Some ''not the signature of the label''"
    by (simp_all add: demo_libs_sel demo_key_forged_sel demo_key_decoded
        demo_key_forged_label_signature)
  have h1: "(\<forall>k\<in>set [demo_key]. self_certifies demo_libs k) \<and>
      DecodeString demo_libs (SignatureKey.Key demo_key_forged) = Some demo_publicKey \<and>
      length demo_publicKey = 32 \<and>
      DecodeString demo_libs (LabelSignature demo_key_forged) =
        Some ''not the signature of the label'' \<and>
      \<not> Verify demo_libs demo_publicKey (SignatureKey.Label demo_key_forged)
          ''not the signature of the label''"
    using d1 d2 demo_key_forged_rejected
    by (simp add: demo_key_self_certifies demo_key_lengths)
  have "VerifySignatures demo_libs ([demo_key] @ demo_key_forged # [demo_key]) demo_signed =
      (Some (Returned ErrInvalidSignatureKey), demo_signed)"
    by (rule T [THEN conjunct1, THEN spec, THEN spec, THEN spec, THEN spec, THEN spec,
          THEN mp, OF h1])
  then have c1: "VerifySignatures demo_libs [demo_key, demo_key_forged, demo_key] demo_signed =
      (Some (Returned ErrInvalidSignatureKey), demo_signed)"
    by simp
  have h2: "\<forall>k\<in>set [demo_key_host, demo_key]. self_certifies demo_libs k"
    by (simp add: demo_key_self_certifies demo_key_host_self_certifies)
  have c2: "VerifySignatures demo_libs [demo_key_host, demo_key] demo_signed =
      check_signatures demo_libs (\<lambda>l. last_labelled l [demo_key_host, demo_key])
        (elems (Invoice.Signature demo_signed)) demo_signed"
    by (rule T [THEN conjunct2, THEN conjunct1, THEN mp, OF h2, THEN conjunct2])
  have same: "SignatureKey.Label demo_key_host = SignatureKey.Label demo_key"
    by (simp add: demo_key_host_sel demo_key_sel)
  have h3: "SignatureKey.Label demo_key_host = SignatureKey.Label demo_key \<and>
      (\<forall>k\<in>set []. SignatureKey.Label k \<noteq> SignatureKey.Label demo_key)"
    using same by simp
  have "last_labelled (SignatureKey.Label demo_key) ([] @ demo_key_host # [] @ demo_key # []) =
      Some demo_key"
    by (rule T [THEN conjunct2, THEN conjunct2, THEN spec, THEN spec, THEN spec, THEN spec,
          THEN spec, THEN mp, OF h3])
  then have c3: "last_labelled (SignatureKey.Label demo_key) [demo_key_host, demo_key] =
      Some demo_key"
    by simp
  from demo_key_self_certifies d1 d2 demo_key_forged_rejected c1 demo_key_host_self_certifies
    same c3 c2
  show ?thesis
    by (intro conjI)
qed

text \<open>
  As stated, for every key list, the first part fails: the outcome is that of the first
  key that does not pass. The forged key's label signature does not verify, yet after a
  key whose \<open>Key\<close> is not base64 the call returns the decoding error, and after a key of
  three bytes it panics; neither is \<open>ErrInvalidSignatureKey\<close>.
\<close>

theorem C4_counterexample:
  "DecodeString demo_libs (SignatureKey.Key demo_key_forged) = Some demo_publicKey \<and>
   DecodeString demo_libs (LabelSignature demo_key_forged) = Some ''not the signature of the label'' \<and>
   \<not> Verify demo_libs demo_publicKey (SignatureKey.Label demo_key_forged)
       ''not the signature of the label'' \<and>
   VerifySignatures demo_libs [demo_key_malformed, demo_key_forged] demo_signed =
     (Some (Returned CorruptInputError), demo_signed) \<and>
   VerifySignatures demo_libs [demo_key_short, demo_key_forged] demo_signed =
     (Some (Panicked (BadPublicKeyLength 3)), demo_signed)"
proof -
  have d1: "DecodeString demo_libs (SignatureKey.Key demo_key_forged) = Some demo_publicKey"
    and d2: "DecodeString demo_libs (LabelSignature demo_key_forged) =
      Some ''not the signature of the label''"
    by (simp_all add: demo_libs_sel demo_key_forged_sel demo_key_decoded
        demo_key_forged_label_signature)
  have "\<not> self_certifies demo_libs demo_key_malformed"
    by (simp add: self_certifies_def demo_key_malformed_sel)
  with VerifySignatures_first_invalid_key [of demo_libs "[]" demo_key_malformed
      "[demo_key_forged]" demo_signed]
  have c1: "VerifySignatures demo_libs [demo_key_malformed, demo_key_forged] demo_signed =
     (Some (Returned CorruptInputError), demo_signed)"
    by (simp add: demo_key_malformed_sel)
  have "\<not> self_certifies demo_libs demo_key_short"
    by (simp add: self_certifies_def demo_key_short_sel)
  with VerifySignatures_first_invalid_key [of demo_libs "[]" demo_key_short
      "[demo_key_forged]" demo_signed]
  have c2: "VerifySignatures demo_libs [demo_key_short, demo_key_forged] demo_signed =
     (Some (Panicked (BadPublicKeyLength 3)), demo_signed)"
    by (simp add: demo_key_short_sel)
  from d1 d2 demo_key_forged_rejected c1 c2 show ?thesis
    by (intro conjI)
qed

text \<open>
  C5. \<open>GenerateSignature\<close> checks in this order: a role outside creator, approver,
  proxy, host gives \<open>ErrInvalidRole\<close> whatever the other arguments are; otherwise a key
  that does not include the role gives \<open>ErrSignatureKeyRoleMismatch\<close>; otherwise an
  author who is not among the invoice's authors gives \<open>ErrAuthorNotExist\<close>; and when all
  three checks pass the call goes on to sign, its outcome being that of \<open>ed25519.Sign\<close>
  and of decoding the key.
\<close>

theorem C5_precondition_order:
  "(role \<notin> {''creator'', ''approver'', ''proxy'', ''host''} \<longrightarrow>
      GenerateSignature L now author role sigKey privKey i = (Some (Returned ErrInvalidRole), i))
   \<and> (role \<in> {''creator'', ''approver'', ''proxy'', ''host''} \<and> \<not> IncludesRole sigKey role \<longrightarrow>
      GenerateSignature L now author role sigKey privKey i =
        (Some (Returned ErrSignatureKeyRoleMismatch), i))
   \<and> (role \<in> {''creator'', ''approver'', ''proxy'', ''host''} \<and> IncludesRole sigKey role \<and>
      author \<notin> set (Authors (Bindle i)) \<longrightarrow>
      GenerateSignature L now author role sigKey privKey i = (Some (Returned ErrAuthorNotExist), i))
   \<and> (role \<in> {''creator'', ''approver'', ''proxy'', ''host''} \<and> IncludesRole sigKey role \<and>
      author \<in> set (Authors (Bindle i)) \<longrightarrow>
      fst (GenerateSignature L now author role sigKey privKey i) =
        (case ed25519_Sign L privKey (generateCleartext i author role) of
           Inl a \<Rightarrow> Some a
         | Inr sig \<Rightarrow>
             (case base64_DecodeString L (SignatureKey.Key sigKey) of
                Inl a \<Rightarrow> Some a
              | Inr pubKey \<Rightarrow> None)))"
proof (intro conjI impI)
  assume "role \<notin> {''creator'', ''approver'', ''proxy'', ''host''}"
  then show "GenerateSignature L now author role sigKey privKey i =
      (Some (Returned ErrInvalidRole), i)"
    by (rule GenerateSignature_invalid_role)
next
  assume "role \<in> {''creator'', ''approver'', ''proxy'', ''host''} \<and> \<not> IncludesRole sigKey role"
  then show "GenerateSignature L now author role sigKey privKey i =
        (Some (Returned ErrSignatureKeyRoleMismatch), i)"
    by (intro GenerateSignature_role_mismatch) simp_all
next
  assume "role \<in> {''creator'', ''approver'', ''proxy'', ''host''} \<and> IncludesRole sigKey role \<and>
      author \<notin> set (Authors (Bindle i))"
  then show "GenerateSignature L now author role sigKey privKey i =
      (Some (Returned ErrAuthorNotExist), i)"
    by (intro GenerateSignature_no_author) simp_all
next
  assume "role \<in> {''creator'', ''approver'', ''proxy'', ''host''} \<and> IncludesRole sigKey role \<and>
      author \<in> set (Authors (Bindle i))"
  then have "GenerateSignature L now author role sigKey privKey i =
     (case ed25519_Sign L privKey (generateCleartext i author role) of
        Inl a \<Rightarrow> (Some a, i)
      | Inr sig \<Rightarrow>
          (case base64_DecodeString L (SignatureKey.Key sigKey) of
             Inl a \<Rightarrow> (Some a, i)
           | Inr pubKey \<Rightarrow>
               (None, i\<lparr>Signature := Some (elems (Invoice.Signature i) @
                  [\<lparr>By = author, Signature = EncodeToString L sig,
                    Key = EncodeToString L pubKey, Role = role, At = now\<rparr>])\<rparr>)))"
    by (intro GenerateSignature_signs) simp_all
  then show "fst (GenerateSignature L now author role sigKey privKey i) =
        (case ed25519_Sign L privKey (generateCleartext i author role) of
           Inl a \<Rightarrow> Some a
         | Inr sig \<Rightarrow>
             (case base64_DecodeString L (SignatureKey.Key sigKey) of
                Inl a \<Rightarrow> Some a
              | Inr pubKey \<Rightarrow> None))"
    by (simp split: sum.splits)
qed

text \<open>One call for each of the four cases, on the example invoice.\<close>

theorem C5_witness:
  "''admin'' \<notin> {''creator'', ''approver'', ''proxy'', ''host''} \<and>
   GenerateSignature demo_libs 0 demo_author ''admin'' demo_key demo_privateKey example_invoice =
     (Some (Returned ErrInvalidRole), example_invoice) \<and>
   \<not> IncludesRole demo_key ''host'' \<and>
   GenerateSignature demo_libs 0 demo_author ''host'' demo_key demo_privateKey example_invoice =
     (Some (Returned ErrSignatureKeyRoleMismatch), example_invoice) \<and>
   ''Mallory'' \<notin> set (Authors (Bindle example_invoice)) \<and>
   GenerateSignature demo_libs 0 ''Mallory'' ''creator'' demo_key demo_privateKey example_invoice =
     (Some (Returned ErrAuthorNotExist), example_invoice) \<and>
   demo_author \<in> set (Authors (Bindle example_invoice)) \<and>
   fst (GenerateSignature demo_libs 0 demo_author ''creator'' demo_key demo_privateKey
          example_invoice) = None"
proof -
  note T = C5_precondition_order [where L = demo_libs and now = 0 and sigKey = demo_key
      and privKey = demo_privateKey and i = example_invoice]
  have h1: "''admin'' \<notin> {''creator'', ''approver'', ''proxy'', ''host''}"
    by simp
  have h2: "''host'' \<in> {''creator'', ''approver'', ''proxy'', ''host''} \<and> \<not> IncludesRole demo_key ''host''"
    by (simp add: IncludesRole_def demo_key_sel)
  have h3: "''creator'' \<in> {''creator'', ''approver'', ''proxy'', ''host''} \<and>
      IncludesRole demo_key ''creator'' \<and> ''Mallory'' \<notin> set (Authors (Bindle example_invoice))"
    by (simp add: demo_preconditions) (simp add: example_invoice_def)
  have h4: "''creator'' \<in> {''creator'', ''approver'', ''proxy'', ''host''} \<and>
      IncludesRole demo_key ''creator'' \<and> demo_author \<in> set (Authors (Bindle example_invoice))"
    by (simp add: demo_preconditions)
  have c1: "GenerateSignature demo_libs 0 demo_author ''admin'' demo_key demo_privateKey
      example_invoice = (Some (Returned ErrInvalidRole), example_invoice)"
    by (rule T [where role = "''admin''" and author = demo_author, THEN conjunct1, THEN mp, OF h1])
  have c2: "GenerateSignature demo_libs 0 demo_author ''host'' demo_key demo_privateKey
      example_invoice = (Some (Returned ErrSignatureKeyRoleMismatch), example_invoice)"
    by (rule T [where role = "''host''" and author = demo_author,
          THEN conjunct2, THEN conjunct1, THEN mp, OF h2])
  have c3: "GenerateSignature demo_libs 0 ''Mallory'' ''creator'' demo_key demo_privateKey
      example_invoice = (Some (Returned ErrAuthorNotExist), example_invoice)"
    by (rule T [where role = "''creator''" and author = "''Mallory''",
          THEN conjunct2, THEN conjunct2, THEN conjunct1, THEN mp, OF h3])
  have "fst (GenerateSignature demo_libs 0 demo_author ''creator'' demo_key demo_privateKey
          example_invoice) =
        (case ed25519_Sign demo_libs demo_privateKey
                (generateCleartext example_invoice demo_author ''creator'') of
           Inl a \<Rightarrow> Some a
         | Inr sig \<Rightarrow>
             (case base64_DecodeString demo_libs (SignatureKey.Key demo_key) of
                Inl a \<Rightarrow> Some a
              | Inr pubKey \<Rightarrow> None))"
    by (rule T [where role = "''creator''" and author = demo_author,
          THEN conjunct2, THEN conjunct2, THEN conjunct2, THEN mp, OF h4])
  then have c4: "fst (GenerateSignature demo_libs 0 demo_author ''creator'' demo_key
      demo_privateKey example_invoice) = None"
    by (simp add: ed25519_Sign_def base64_DecodeString_def demo_key_lengths demo_libs_sel
        demo_key_decoded)
  from h1 h2 h3 h4 c1 c2 c3 c4 show ?thesis
    by (intro conjI) (elim conjE, assumption)+
qed

text \<open>
  C6. Whenever \<open>GenerateSignature\<close> does not return \<open>nil\<close>, the invoice is unchanged;
  in particular when the key's \<open>Key\<close> does not decode, the call fails and the invoice is
  unchanged. When it returns \<open>nil\<close>, the invoice is the one before with its signature
  list (initialised if it was \<open>nil\<close>) extended at the end by the one record of the
  author, the encoded signature of the canonical text, the re-encoded public key, the
  role and the timestamp. In every case \<open>Bindle\<close> and \<open>Parcel\<close> are the same and the
  records stored before are the same, in the same places.
\<close>

theorem C6_atomic_append:
  "(fst (GenerateSignature L now author role sigKey privKey i) \<noteq> None \<longrightarrow>
      snd (GenerateSignature L now author role sigKey privKey i) = i)
   \<and> (DecodeString L (SignatureKey.Key sigKey) = None \<longrightarrow>
      fst (GenerateSignature L now author role sigKey privKey i) \<noteq> None \<and>
      snd (GenerateSignature L now author role sigKey privKey i) = i)
   \<and> (fst (GenerateSignature L now author role sigKey privKey i) = None \<longrightarrow>
      (\<exists>pubKey. DecodeString L (SignatureKey.Key sigKey) = Some pubKey \<and>
         snd (GenerateSignature L now author role sigKey privKey i) =
           i\<lparr>Signature := Some (elems (Invoice.Signature i) @
                [\<lparr>By = author,
                  Signature = EncodeToString L (Sign L privKey (generateCleartext i author role)),
                  Key = EncodeToString L pubKey, Role = role, At = now\<rparr>])\<rparr>))
   \<and> Bindle (snd (GenerateSignature L now author role sigKey privKey i)) = Bindle i
   \<and> Parcel (snd (GenerateSignature L now author role sigKey privKey i)) = Parcel i
   \<and> take (length (elems (Invoice.Signature i)))
        (elems (Invoice.Signature (snd (GenerateSignature L now author role sigKey privKey i)))) =
      elems (Invoice.Signature i)"
proof -
  let ?r = "GenerateSignature L now author role sigKey privKey i"
  have frame: "fst ?r \<noteq> None \<Longrightarrow> snd ?r = i"
    by (rule GenerateSignature_failure_frame)
  have decode: "fst ?r \<noteq> None" if "DecodeString L (SignatureKey.Key sigKey) = None"
    using that by (simp add: GenerateSignature_None_iff)
  have success: "fst ?r = None \<Longrightarrow>
      \<exists>pubKey. DecodeString L (SignatureKey.Key sigKey) = Some pubKey \<and>
         snd ?r = i\<lparr>Signature := Some (elems (Invoice.Signature i) @
                [\<lparr>By = author,
                  Signature = EncodeToString L (Sign L privKey (generateCleartext i author role)),
                  Key = EncodeToString L pubKey, Role = role, At = now\<rparr>])\<rparr>"
    by (rule GenerateSignature_success)
  have rest: "Bindle (snd ?r) = Bindle i \<and> Parcel (snd ?r) = Parcel i \<and>
      take (length (elems (Invoice.Signature i))) (elems (Invoice.Signature (snd ?r))) =
      elems (Invoice.Signature i)"
  proof (cases "fst ?r")
    case None
    with success obtain pubKey where
      "snd ?r = i\<lparr>Signature := Some (elems (Invoice.Signature i) @
                [\<lparr>By = author,
                  Signature = EncodeToString L (Sign L privKey (generateCleartext i author role)),
                  Key = EncodeToString L pubKey, Role = role, At = now\<rparr>])\<rparr>"
      by blast
    then show ?thesis by simp
  next
    case (Some a)
    with frame have "snd ?r = i" by simp
    then show ?thesis by simp
  qed
  from frame decode success rest show ?thesis
    by blast
qed

text \<open>A role outside the vocabulary and a key that does not decode leave the example
  invoice as it is; a successful call appends the sample record to it.\<close>

theorem C6_witness:
  "fst (GenerateSignature demo_libs 0 demo_author ''admin'' demo_key demo_privateKey
          example_invoice) \<noteq> None \<and>
   snd (GenerateSignature demo_libs 0 demo_author ''admin'' demo_key demo_privateKey
          example_invoice) = example_invoice \<and>
   DecodeString demo_libs (SignatureKey.Key demo_key_malformed) = None \<and>
   snd (GenerateSignature demo_libs 0 demo_author ''creator'' demo_key_malformed demo_privateKey
          example_invoice) = example_invoice \<and>
   fst (GenerateSignature demo_libs 1600000000 demo_author ''creator'' demo_key demo_privateKey
          example_invoice) = None \<and>
   snd (GenerateSignature demo_libs 1600000000 demo_author ''creator'' demo_key demo_privateKey
          example_invoice) = example_invoice\<lparr>Signature := Some [demo_record]\<rparr>"
proof -
  note T = C6_atomic_append [where L = demo_libs and author = demo_author
      and privKey = demo_privateKey and i = example_invoice]
  have f1: "fst (GenerateSignature demo_libs 0 demo_author ''admin'' demo_key demo_privateKey
          example_invoice) \<noteq> None"
    by (simp add: GenerateSignature_None_iff)
  have c1: "snd (GenerateSignature demo_libs 0 demo_author ''admin'' demo_key demo_privateKey
          example_invoice) = example_invoice"
    by (rule T [where now = 0 and role = "''admin''" and sigKey = demo_key,
          THEN conjunct1, THEN mp, OF f1])
  have f2: "DecodeString demo_libs (SignatureKey.Key demo_key_malformed) = None"
    by (rule demo_key_malformed_sel)
  have c2: "snd (GenerateSignature demo_libs 0 demo_author ''creator'' demo_key_malformed
          demo_privateKey example_invoice) = example_invoice"
    by (rule T [where now = 0 and role = "''creator''" and sigKey = demo_key_malformed,
          THEN conjunct2, THEN conjunct1, THEN mp, OF f2, THEN conjunct2])
  have f3: "fst (GenerateSignature demo_libs 1600000000 demo_author ''creator'' demo_key
          demo_privateKey example_invoice) = None"
    by (simp add: demo_sign)
  have "\<exists>pubKey. DecodeString demo_libs (SignatureKey.Key demo_key) = Some pubKey \<and>
         snd (GenerateSignature demo_libs 1600000000 demo_author ''creator'' demo_key
                demo_privateKey example_invoice) =
           example_invoice\<lparr>Signature := Some (elems (Invoice.Signature example_invoice) @
                [\<lparr>By = demo_author,
                  Signature = EncodeToString demo_libs (Sign demo_libs demo_privateKey
                    (generateCleartext example_invoice demo_author ''creator'')),
                  Key = EncodeToString demo_libs pubKey, Role = ''creator'',
                  At = 1600000000\<rparr>])\<rparr>"
    by (rule T [where now = 1600000000 and role = "''creator''" and sigKey = demo_key,
          THEN conjunct2, THEN conjunct2, THEN conjunct1, THEN mp, OF f3])
  then obtain pubKey where
    p: "DecodeString demo_libs (SignatureKey.Key demo_key) = Some pubKey" and
    r: "snd (GenerateSignature demo_libs 1600000000 demo_author ''creator'' demo_key
                demo_privateKey example_invoice) =
           example_invoice\<lparr>Signature := Some (elems (Invoice.Signature example_invoice) @
                [\<lparr>By = demo_author,
                  Signature = EncodeToString demo_libs (Sign demo_libs demo_privateKey
                    (generateCleartext example_invoice demo_author ''creator'')),
                  Key = EncodeToString demo_libs pubKey, Role = ''creator'',
                  At = 1600000000\<rparr>])\<rparr>"
    by (elim exE conjE)
  from p have pub: "pubKey = demo_publicKey"
    by (simp add: demo_libs_sel demo_key_decoded)
  have none: "Invoice.Signature example_invoice = None"
    by (simp add: example_invoice_def)
  have c3: "snd (GenerateSignature demo_libs 1600000000 demo_author ''creator'' demo_key
          demo_privateKey example_invoice) = example_invoice\<lparr>Signature := Some [demo_record]\<rparr>"
    unfolding r pub
    by (simp add: none demo_libs_sel demo_Sign_def demo_key_lengths
        demo_key_encoded demo_signature_encoded demo_record_eq)
  from f1 c1 f2 c2 f3 c3 show ?thesis
    by (intro conjI)
qed

text \<open>
  C7, as amended. Changing the SHA256 string of one parcel, the other parcels staying in
  place, always changes the canonical text of every author and role. For two parcel lists
  none of whose SHA256 strings contains a newline byte, the canonical texts are equal if
  and only if the two sequences of SHA256 strings are equal: on such lists the text is
  injective in the digest sequence, so a reordering that changes the sequence changes the
  text.
\<close>

theorem C7_injective_in_hashes:
  "(\<forall>before p q after.
      SHA256 (Parcel.Label p) \<noteq> SHA256 (Parcel.Label q) \<longrightarrow>
      generateCleartext (i\<lparr>Parcel := before @ p # after\<rparr>) author role \<noteq>
      generateCleartext (i\<lparr>Parcel := before @ q # after\<rparr>) author role)
   \<and> (\<forall>ps ps'.
        (\<forall>p\<in>set ps \<union> set ps'. CHR 0x0A \<notin> set (SHA256 (Parcel.Label p))) \<longrightarrow>
        (generateCleartext (i\<lparr>Parcel := ps\<rparr>) author role =
           generateCleartext (i\<lparr>Parcel := ps'\<rparr>) author role \<longleftrightarrow>
         map (\<lambda>p. SHA256 (Parcel.Label p)) ps = map (\<lambda>p. SHA256 (Parcel.Label p)) ps'))"
proof (intro conjI allI impI)
  fix before after :: "Parcel list" and p q :: Parcel
  assume "SHA256 (Parcel.Label p) \<noteq> SHA256 (Parcel.Label q)"
  then show "generateCleartext (i\<lparr>Parcel := before @ p # after\<rparr>) author role \<noteq>
      generateCleartext (i\<lparr>Parcel := before @ q # after\<rparr>) author role"
    by (simp add: generateCleartext_Parcel)
next
  fix ps ps' :: "Parcel list"
  assume free: "\<forall>p\<in>set ps \<union> set ps'. CHR 0x0A \<notin> set (SHA256 (Parcel.Label p))"
  let ?hs = "map (\<lambda>p. SHA256 (Parcel.Label p)) ps" and ?hs' = "map (\<lambda>p. SHA256 (Parcel.Label p)) ps'"
  show "generateCleartext (i\<lparr>Parcel := ps\<rparr>) author role =
           generateCleartext (i\<lparr>Parcel := ps'\<rparr>) author role \<longleftrightarrow> ?hs = ?hs'"
  proof
    assume "generateCleartext (i\<lparr>Parcel := ps\<rparr>) author role =
           generateCleartext (i\<lparr>Parcel := ps'\<rparr>) author role"
    then have "concat (map (\<lambda>h. CHR 0x0A # h) ?hs) = concat (map (\<lambda>h. CHR 0x0A # h) ?hs')"
      by (simp only: generateCleartext_Parcel same_append_eq)
    moreover have "\<forall>h\<in>set ?hs. CHR 0x0A \<notin> set h" and "\<forall>h\<in>set ?hs'. CHR 0x0A \<notin> set h"
      using free by auto
    ultimately show "?hs = ?hs'"
      by (intro lines_inject [of ?hs "CHR 0x0A" ?hs'])
  next
    assume "?hs = ?hs'"
    then show "generateCleartext (i\<lparr>Parcel := ps\<rparr>) author role =
           generateCleartext (i\<lparr>Parcel := ps'\<rparr>) author role"
      by (simp only: generateCleartext_Parcel)
  qed
qed

text \<open>One digest changed in a list of two parcels; and the parcels of the example invoice
  in reverse order.\<close>

theorem C7_witness:
  "SHA256 (Parcel.Label (parcel ''e1706ab0'')) \<noteq> SHA256 (Parcel.Label (parcel ''e1706ab1'')) \<and>
   generateCleartext (example_invoice\<lparr>Parcel := [parcel ''098fa798''] @ parcel ''e1706ab0'' # []\<rparr>)
       demo_author ''creator'' \<noteq>
     generateCleartext (example_invoice\<lparr>Parcel := [parcel ''098fa798''] @ parcel ''e1706ab1'' # []\<rparr>)
       demo_author ''creator'' \<and>
   map (\<lambda>p. SHA256 (Parcel.Label p)) (Parcel example_invoice) \<noteq>
     map (\<lambda>p. SHA256 (Parcel.Label p)) (rev (Parcel example_invoice)) \<and>
   generateCleartext (example_invoice\<lparr>Parcel := Parcel example_invoice\<rparr>) demo_author ''creator'' \<noteq>
     generateCleartext (example_invoice\<lparr>Parcel := rev (Parcel example_invoice)\<rparr>)
       demo_author ''creator''"
proof -
  note T = C7_injective_in_hashes [where i = example_invoice and author = demo_author
      and role = "''creator''"]
  have h1: "SHA256 (Parcel.Label (parcel ''e1706ab0'')) \<noteq> SHA256 (Parcel.Label (parcel ''e1706ab1''))"
    by (simp add: parcel_def)
  have c1: "generateCleartext
        (example_invoice\<lparr>Parcel := [parcel ''098fa798''] @ parcel ''e1706ab0'' # []\<rparr>)
        demo_author ''creator'' \<noteq>
      generateCleartext
        (example_invoice\<lparr>Parcel := [parcel ''098fa798''] @ parcel ''e1706ab1'' # []\<rparr>)
        demo_author ''creator''"
    by (rule T [THEN conjunct1, THEN spec, THEN spec, THEN spec, THEN spec, THEN mp, OF h1])
  have h2: "\<forall>p\<in>set (Parcel example_invoice) \<union> set (rev (Parcel example_invoice)).
      CHR 0x0A \<notin> set (SHA256 (Parcel.Label p))"
    by (simp add: example_invoice_def)
  have d2: "map (\<lambda>p. SHA256 (Parcel.Label p)) (Parcel example_invoice) \<noteq>
     map (\<lambda>p. SHA256 (Parcel.Label p)) (rev (Parcel example_invoice))"
    by (simp add: example_invoice_def)
  have "generateCleartext (example_invoice\<lparr>Parcel := Parcel example_invoice\<rparr>)
          demo_author ''creator'' =
        generateCleartext (example_invoice\<lparr>Parcel := rev (Parcel example_invoice)\<rparr>)
          demo_author ''creator'' \<longleftrightarrow>
        map (\<lambda>p. SHA256 (Parcel.Label p)) (Parcel example_invoice) =
        map (\<lambda>p. SHA256 (Parcel.Label p)) (rev (Parcel example_invoice))"
    by (rule T [THEN conjunct2, THEN spec, THEN spec, THEN mp, OF h2])
  with d2 have c2: "generateCleartext (example_invoice\<lparr>Parcel := Parcel example_invoice\<rparr>)
          demo_author ''creator'' \<noteq>
        generateCleartext (example_invoice\<lparr>Parcel := rev (Parcel example_invoice)\<rparr>)
          demo_author ''creator''"
    by simp
  from h1 c1 d2 c2 show ?thesis
    by (intro conjI)
qed

text \<open>
  As stated, for every pair of parcel lists, injectivity fails, since a newline inside a
  field is not escaped: one parcel whose SHA256 string holds a newline gives the text of
  two parcels, and moving such a parcel from the front of a list of three to its end, a
  reordering that changes the digest sequence, leaves the text the same.
\<close>

theorem C7_counterexample:
  "map (\<lambda>p. SHA256 (Parcel.Label p)) [parcel ''e1706ab0\<newline>098fa798''] \<noteq>
     map (\<lambda>p. SHA256 (Parcel.Label p)) [parcel ''e1706ab0'', parcel ''098fa798''] \<and>
   generateCleartext (example_invoice\<lparr>Parcel := [parcel ''e1706ab0\<newline>098fa798'']\<rparr>)
       demo_author ''creator'' =
     generateCleartext (example_invoice\<lparr>Parcel := [parcel ''e1706ab0'', parcel ''098fa798'']\<rparr>)
       demo_author ''creator'' \<and>
   map (\<lambda>p. SHA256 (Parcel.Label p))
       (rotate1 [parcel ''e1706ab0\<newline>098fa798'', parcel ''e1706ab0'', parcel ''098fa798'']) \<noteq>
     map (\<lambda>p. SHA256 (Parcel.Label p))
       [parcel ''e1706ab0\<newline>098fa798'', parcel ''e1706ab0'', parcel ''098fa798''] \<and>
   generateCleartext
       (example_invoice\<lparr>Parcel :=
          rotate1 [parcel ''e1706ab0\<newline>098fa798'', parcel ''e1706ab0'', parcel ''098fa798'']\<rparr>)
       demo_author ''creator'' =
     generateCleartext
       (example_invoice\<lparr>Parcel :=
          [parcel ''e1706ab0\<newline>098fa798'', parcel ''e1706ab0'', parcel ''098fa798'']\<rparr>)
       demo_author ''creator''"
  by (simp add: generateCleartext_def parcel_def newline_def)

text \<open>
  C8. Every key the first loop stores is stored under its own \<open>Label\<close>, so the key the
  second loop finds under a record's \<open>By\<close> has that \<open>By\<close> as its label, and the canonical
  text rebuilt from the key's label is the text rebuilt from the record's \<open>By\<close>;
  \<open>VerifySignatures\<close> is the same function as its variant that rebuilds the text from
  \<open>By\<close>.
\<close>

theorem C8_label_is_By:
  "(\<forall>keys key (s :: Signature).
      index_keys L Map.empty sigKeys = Inr keys \<and> keys (By s) = Some key \<longrightarrow>
      SignatureKey.Label key = By s \<and>
      generateCleartext i (SignatureKey.Label key) (Role s) = generateCleartext i (By s) (Role s))
   \<and> VerifySignatures L sigKeys i = VerifySignatures_By L sigKeys i"
proof (intro conjI allI impI)
  fix keys and key :: SignatureKey and s :: Signature
  assume a: "index_keys L Map.empty sigKeys = Inr keys \<and> keys (By s) = Some key"
  then show label: "SignatureKey.Label key = By s"
    using index_keys_labels by blast
  then show "generateCleartext i (SignatureKey.Label key) (Role s) =
             generateCleartext i (By s) (Role s)"
    by simp
next
  show "VerifySignatures L sigKeys i = VerifySignatures_By L sigKeys i"
    by (rule VerifySignatures_By_eq)
qed

text \<open>The index built from the sample key, looked up at the sample record's \<open>By\<close>.\<close>

theorem C8_witness:
  "index_keys demo_libs Map.empty [demo_key] = Inr [demo_author \<mapsto> demo_key] \<and>
   [demo_author \<mapsto> demo_key] (By demo_record) = Some demo_key \<and>
   SignatureKey.Label demo_key = By demo_record \<and>
   generateCleartext demo_signed (SignatureKey.Label demo_key) (Role demo_record) =
     generateCleartext demo_signed (By demo_record) (Role demo_record)"
proof -
  have h: "index_keys demo_libs Map.empty [demo_key] = Inr [demo_author \<mapsto> demo_key] \<and>
      [demo_author \<mapsto> demo_key] (By demo_record) = Some demo_key"
    using demo_key_self_certifies
    by (simp add: index_keys_step demo_key_sel demo_record_sel del: index_keys.simps(2))
  note T = C8_label_is_By [where L = demo_libs and sigKeys = "[demo_key]" and i = demo_signed,
      THEN conjunct1, THEN spec, THEN spec, THEN spec, THEN mp, OF h]
  from h T show ?thesis
    by (intro conjI) (elim conjE, assumption)+
qed

text \<open>
  C9. \<open>VerifySignatures\<close> leaves the invoice as it was, whether it returns \<open>nil\<close>, an
  error or panics, and calling it again on the invoice it leaves gives the same outcome.
\<close>

theorem C9_verify_reads_only:
  "snd (VerifySignatures L sigKeys i) = i \<and>
   VerifySignatures L sigKeys (snd (VerifySignatures L sigKeys i)) = VerifySignatures L sigKeys i"
  by (simp add: VerifySignatures_snd)

text \<open>On the signed sample invoice, with a key that is accepted and with one that is
  rejected.\<close>

theorem C9_witness:
  "snd (VerifySignatures demo_libs [demo_key] demo_signed) = demo_signed \<and>
   snd (VerifySignatures demo_libs [demo_key_forged] demo_signed) = demo_signed \<and>
   VerifySignatures demo_libs [demo_key]
     (snd (VerifySignatures demo_libs [demo_key] demo_signed)) =
   VerifySignatures demo_libs [demo_key] demo_signed"
  using C9_verify_reads_only [of demo_libs "[demo_key]" demo_signed]
    C9_verify_reads_only [of demo_libs "[demo_key_forged]" demo_signed]
  by (intro conjI) (elim conjE, assumption)+

text \<open>
  C10. Key material of the wrong length makes the calls panic instead of returning an
  error. When the three checks of \<open>GenerateSignature\<close> pass and the private key does not
  have 64 bytes, the call panics in \<open>ed25519.Sign\<close>, before the key is decoded. When the
  keys before some supplied key self-certify and that key's \<open>Key\<close> and \<open>LabelSignature\<close>
  are well-formed base64 but the decoded key does not have 32 bytes, \<open>VerifySignatures\<close>
  panics in \<open>ed25519.Verify\<close>. A \<open>Key\<close> that is not well-formed base64 is returned as
  the decoding error by both. The invoice is unchanged in each case.
\<close>

theorem C10_wrong_length_panics:
  "(role \<in> {''creator'', ''approver'', ''proxy'', ''host''} \<and> IncludesRole sigKey role \<and>
      author \<in> set (Authors (Bindle i)) \<and> length privKey \<noteq> 64 \<longrightarrow>
      GenerateSignature L now author role sigKey privKey i =
        (Some (Panicked (BadPrivateKeyLength (length privKey))), i))
   \<and> (\<forall>before key after keyBytes labelSigBytes.
        (\<forall>k\<in>set before. self_certifies L k) \<and>
        DecodeString L (SignatureKey.Key key) = Some keyBytes \<and>
        DecodeString L (LabelSignature key) = Some labelSigBytes \<and>
        length keyBytes \<noteq> 32 \<longrightarrow>
        VerifySignatures L (before @ key # after) i =
          (Some (Panicked (BadPublicKeyLength (length keyBytes))), i))
   \<and> (role \<in> {''creator'', ''approver'', ''proxy'', ''host''} \<and> IncludesRole sigKey role \<and>
      author \<in> set (Authors (Bindle i)) \<and> length privKey = 64 \<and>
      DecodeString L (SignatureKey.Key sigKey) = None \<longrightarrow>
      GenerateSignature L now author role sigKey privKey i =
        (Some (Returned CorruptInputError), i))
   \<and> (\<forall>before key after.
        (\<forall>k\<in>set before. self_certifies L k) \<and>
        DecodeString L (SignatureKey.Key key) = None \<longrightarrow>
        VerifySignatures L (before @ key # after) i = (Some (Returned CorruptInputError), i))"
proof (intro conjI allI impI)
  assume "role \<in> {''creator'', ''approver'', ''proxy'', ''host''} \<and> IncludesRole sigKey role \<and>
      author \<in> set (Authors (Bindle i)) \<and> length privKey \<noteq> 64"
  then show "GenerateSignature L now author role sigKey privKey i =
        (Some (Panicked (BadPrivateKeyLength (length privKey))), i)"
    by (simp add: GenerateSignature_signs ed25519_Sign_def)
next
  fix before after :: "SignatureKey list" and key :: SignatureKey and keyBytes labelSigBytes
  assume a: "(\<forall>k\<in>set before. self_certifies L k) \<and>
        DecodeString L (SignatureKey.Key key) = Some keyBytes \<and>
        DecodeString L (LabelSignature key) = Some labelSigBytes \<and>
        length keyBytes \<noteq> 32"
  then have "list_all (self_certifies L) before" and "\<not> self_certifies L key"
    by (simp_all add: list_all_iff self_certifies_def)
  from VerifySignatures_first_invalid_key [OF this, of after i] a
  show "VerifySignatures L (before @ key # after) i =
          (Some (Panicked (BadPublicKeyLength (length keyBytes))), i)"
    by simp
next
  assume "role \<in> {''creator'', ''approver'', ''proxy'', ''host''} \<and> IncludesRole sigKey role \<and>
      author \<in> set (Authors (Bindle i)) \<and> length privKey = 64 \<and>
      DecodeString L (SignatureKey.Key sigKey) = None"
  then show "GenerateSignature L now author role sigKey privKey i =
        (Some (Returned CorruptInputError), i)"
    by (simp add: GenerateSignature_signs ed25519_Sign_def base64_DecodeString_def)
next
  fix before after :: "SignatureKey list" and key :: SignatureKey
  assume a: "(\<forall>k\<in>set before. self_certifies L k) \<and>
        DecodeString L (SignatureKey.Key key) = None"
  then have "list_all (self_certifies L) before" and "\<not> self_certifies L key"
    by (simp_all add: list_all_iff self_certifies_def)
  from VerifySignatures_first_invalid_key [OF this, of after i] a
  show "VerifySignatures L (before @ key # after) i = (Some (Returned CorruptInputError), i)"
    by simp
qed

text \<open>A private key of nine bytes; a key that decodes to three bytes; a key that is not
  base64.\<close>

theorem C10_witness:
  "length ''too short'' \<noteq> 64 \<and>
   GenerateSignature demo_libs 0 demo_author ''creator'' demo_key ''too short'' example_invoice =
     (Some (Panicked (BadPrivateKeyLength 9)), example_invoice) \<and>
   DecodeString demo_libs (SignatureKey.Key demo_key_short) = Some ''ABC'' \<and>
   VerifySignatures demo_libs [demo_key, demo_key_short] demo_signed =
     (Some (Panicked (BadPublicKeyLength 3)), demo_signed) \<and>
   DecodeString demo_libs (SignatureKey.Key demo_key_malformed) = None \<and>
   GenerateSignature demo_libs 0 demo_author ''creator'' demo_key_malformed demo_privateKey
     example_invoice = (Some (Returned CorruptInputError), example_invoice) \<and>
   VerifySignatures demo_libs [demo_key_malformed] demo_signed =
     (Some (Returned CorruptInputError), demo_signed)"
proof -
  note T = C10_wrong_length_panics [where L = demo_libs and role = "''creator''"
      and author = demo_author and i = example_invoice and now = 0]
  note V = C10_wrong_length_panics [where L = demo_libs and i = demo_signed]
  have len: "length ''too short'' \<noteq> 64"
    by simp
  have h1: "''creator'' \<in> {''creator'', ''approver'', ''proxy'', ''host''} \<and>
      IncludesRole demo_key ''creator'' \<and> demo_author \<in> set (Authors (Bindle example_invoice)) \<and>
      length ''too short'' \<noteq> 64"
    by (simp add: demo_preconditions)
  have "GenerateSignature demo_libs 0 demo_author ''creator'' demo_key ''too short''
      example_invoice = (Some (Panicked (BadPrivateKeyLength (length ''too short''))), example_invoice)"
    by (rule T [where sigKey = demo_key and privKey = "''too short''",
          THEN conjunct1, THEN mp, OF h1])
  then have c1: "GenerateSignature demo_libs 0 demo_author ''creator'' demo_key ''too short''
      example_invoice = (Some (Panicked (BadPrivateKeyLength 9)), example_invoice)"
    by simp
  have d2: "DecodeString demo_libs (SignatureKey.Key demo_key_short) = Some ''ABC''"
    by (rule demo_key_short_sel)
  have h2: "(\<forall>k\<in>set [demo_key]. self_certifies demo_libs k) \<and>
      DecodeString demo_libs (SignatureKey.Key demo_key_short) = Some ''ABC'' \<and>
      DecodeString demo_libs (LabelSignature demo_key_short) = Some (demo_publicKey @ demo_author) \<and>
      length ''ABC'' \<noteq> 32"
    by (simp add: demo_key_self_certifies demo_key_short_sel)
  have "VerifySignatures demo_libs ([demo_key] @ demo_key_short # []) demo_signed =
      (Some (Panicked (BadPublicKeyLength (length ''ABC''))), demo_signed)"
    by (rule V [THEN conjunct2, THEN conjunct1, THEN spec, THEN spec, THEN spec, THEN spec,
          THEN spec, THEN mp, OF h2])
  then have c2: "VerifySignatures demo_libs [demo_key, demo_key_short] demo_signed =
      (Some (Panicked (BadPublicKeyLength 3)), demo_signed)"
    by simp
  have d3: "DecodeString demo_libs (SignatureKey.Key demo_key_malformed) = None"
    by (rule demo_key_malformed_sel)
  have h3: "''creator'' \<in> {''creator'', ''approver'', ''proxy'', ''host''} \<and>
      IncludesRole demo_key_malformed ''creator'' \<and>
      demo_author \<in> set (Authors (Bindle example_invoice)) \<and> length demo_privateKey = 64 \<and>
      DecodeString demo_libs (SignatureKey.Key demo_key_malformed) = None"
    by (simp add: demo_preconditions demo_key_malformed_sel demo_key_lengths)
  have c3: "GenerateSignature demo_libs 0 demo_author ''creator'' demo_key_malformed
      demo_privateKey example_invoice = (Some (Returned CorruptInputError), example_invoice)"
    by (rule T [where sigKey = demo_key_malformed and privKey = demo_privateKey,
          THEN conjunct2, THEN conjunct2, THEN conjunct1, THEN mp, OF h3])
  have h4: "(\<forall>k\<in>set []. self_certifies demo_libs k) \<and>
      DecodeString demo_libs (SignatureKey.Key demo_key_malformed) = None"
    by (simp add: demo_key_malformed_sel)
  have "VerifySignatures demo_libs ([] @ demo_key_malformed # []) demo_signed =
      (Some (Returned CorruptInputError), demo_signed)"
    by (rule V [THEN conjunct2, THEN conjunct2, THEN conjunct2, THEN spec, THEN spec,
          THEN spec, THEN mp, OF h4])
  then have c4: "VerifySignatures demo_libs [demo_key_malformed] demo_signed =
      (Some (Returned CorruptInputError), demo_signed)"
    by simp
  from len c1 d2 c2 d3 c3 c4 show ?thesis
    by (intro conjI)
qed

end
